theory Spec2Isabelle
  imports Main "HOL-Library.AList" "HOL-Library.Sublist"
begin

section \<open>Strings\<close>

text \<open>
  Python strings are modelled as \<open>string\<close>; a character stands for a code point below 256.
  \<open>isspace\<close> is Python's \<open>str.isspace\<close> on that range: the characters that
  \<open>str.strip()\<close> and \<open>str.split()\<close> treat as whitespace.
\<close>

definition isspace :: "char \<Rightarrow> bool" where
  "isspace c =
     (let n = (of_char c :: nat)
      in (9 \<le> n \<and> n \<le> 13) \<or> (28 \<le> n \<and> n \<le> 32) \<or> n = 133 \<or> n = 160)"

text \<open>\<open>s.strip()\<close>: leading and trailing whitespace removed.\<close>

definition strip :: "string \<Rightarrow> string" where
  "strip s = rev (dropWhile isspace (rev (dropWhile isspace s)))"

text \<open>\<open>s.split()\<close>: the maximal runs of non-whitespace characters, in order.
  The first argument is the word being read, reversed.\<close>

fun split_from :: "string \<Rightarrow> string \<Rightarrow> string list" where
  "split_from cur [] = (if cur = [] then [] else [rev cur])"
| "split_from cur (c # cs) =
     (if isspace c
      then (if cur = [] then split_from [] cs else rev cur # split_from [] cs)
      else split_from (c # cur) cs)"

definition split :: "string \<Rightarrow> string list" where
  "split s = split_from [] s"

section \<open>Errors\<close>

text \<open>
  Every exception of the program is a value. \<open>ToolNotFound\<close> is the \<open>ValueError\<close> raised by
  \<open>_call_mcp_tool\<close>; it carries the requested tool name, the server script and the names of
  the tools the server does expose. \<open>TransportError\<close> stands for any failure of process
  start, handshake or stream, \<open>ToolException\<close> for a tool that raised on the server side
  (it carries the cause).
  \<open>TypeError\<close>, \<open>AttributeError\<close>, \<open>KeyError\<close>, \<open>OSError\<close> and \<open>JSONDecodeError\<close> are the
  Python exceptions of the same name.
  \<open>ValidationError\<close> and \<open>GenerationFailed\<close> are the two \<open>gr.Error\<close>s of the front end.
\<close>

datatype error =
    TypeError
  | AttributeError
  | KeyError string
  | OSError
  | JSONDecodeError
  | ToolNotFound string string "string list"
  | TransportError string
  | ToolException error
  | ValidationError
  | GenerationFailed error

section \<open>The usage ledger (model\_tracker.py)\<close>

text \<open>
  What \<open>json.loads\<close> returns. Numbers are integers: a fractional number in the file is
  outside this model. An object is an association list in insertion order, as a Python dict is.
\<close>

datatype json =
    JNull
  | JBool bool
  | JInt int
  | JStr string
  | JArr "json list"
  | JObj "(string \<times> json) list"

text \<open>
  The backing store \<open>model_usage.json\<close>. What is there to read: nothing, something that
  cannot be read (\<open>read_text\<close> raises: no permission, a directory, bytes that do not
  decode), text that is not JSON (\<open>json.loads\<close> raises), or a JSON value.
  \<open>json.dumps\<close> followed by \<open>json.loads\<close> gives back the value written, so the file
  holds the value itself. Whether it can be written: \<open>write_text\<close> raises on a path that is
  write-protected or a directory.
\<close>

datatype contents = Missing | Unreadable | Unparseable | Stored json

record store =
  held :: contents
  writable :: bool

definition exists :: "store \<Rightarrow> bool" where
  "exists f = (case held f of Missing \<Rightarrow> False | _ \<Rightarrow> True)"

text \<open>\<open>json.loads(_USAGE_FILE.read_text())\<close>, with its exceptions as values.\<close>

definition read_json :: "store \<Rightarrow> error + json" where
  "read_json f =
     (case held f of
        Missing \<Rightarrow> Inl OSError
      | Unreadable \<Rightarrow> Inl OSError
      | Unparseable \<Rightarrow> Inl JSONDecodeError
      | Stored j \<Rightarrow> Inr j)"

definition load_usage :: "store \<Rightarrow> json" where
  "load_usage f =
     (if exists f
      then (case read_json f of Inr j \<Rightarrow> j | Inl e \<Rightarrow> JObj [])
      else JObj [])"

text \<open>\<open>_USAGE_FILE.write_text(json.dumps(data, indent=2))\<close>: nothing guards the write.\<close>

definition save_usage :: "json \<Rightarrow> store \<Rightarrow> error + store" where
  "save_usage data f = (if writable f then Inr (f\<lparr>held := Stored data\<rparr>) else Inl OSError)"

definition estimate_tokens :: "string \<Rightarrow> int" where
  "estimate_tokens text = max (int (length (split text))) 1"

text \<open>\<open>d[key] += n\<close> on a loaded value \<open>d\<close>: only a dict can be indexed by a string, the key
  must be there, and only a number (a bool counts as 0 or 1) can be added to.\<close>

definition add_field :: "string \<Rightarrow> int \<Rightarrow> json \<Rightarrow> error + json" where
  "add_field key n d =
     (case d of
        JObj st \<Rightarrow>
          (case map_of st key of
             None \<Rightarrow> Inl (KeyError key)
           | Some (JInt c) \<Rightarrow> Inr (JObj (AList.update key (JInt (c + n)) st))
           | Some (JBool b) \<Rightarrow> Inr (JObj (AList.update key (JInt ((if b then 1 else 0) + n)) st))
           | Some _ \<Rightarrow> Inl TypeError)
      | _ \<Rightarrow> Inl TypeError)"

definition update_usage :: "string \<Rightarrow> string \<Rightarrow> int \<Rightarrow> store \<Rightarrow> error + store" where
  "update_usage agent_name model_name num_tokens f =
     (case load_usage f of
        JObj usage0 \<Rightarrow>
          (let usage = (if map_of usage0 agent_name = None
                        then AList.update agent_name (JObj []) usage0 else usage0)
           in case map_of usage agent_name of
                Some (JObj models) \<Rightarrow>
                  (let model_stats =
                     (case map_of models model_name of
                        None \<Rightarrow> JObj [(''numApiCalls'', JInt 0), (''totalTokens'', JInt 0)]
                      | Some s \<Rightarrow> s)
                   in case add_field ''numApiCalls'' 1 model_stats of
                        Inl e \<Rightarrow> Inl e
                      | Inr stats1 \<Rightarrow>
                          (case add_field ''totalTokens'' num_tokens stats1 of
                             Inl e \<Rightarrow> Inl e
                           | Inr stats2 \<Rightarrow>
                               save_usage
                                 (JObj (AList.update agent_name
                                    (JObj (AList.update model_name stats2 models)) usage)) f))
              | _ \<Rightarrow> Inl AttributeError)
      | _ \<Rightarrow> Inl TypeError)"

definition get_model_usage :: "store \<Rightarrow> json" where
  "get_model_usage f = load_usage f"

text \<open>\<open>N\<close> sequential \<open>record\<close> calls for one agent and model; an exception ends the sequence.\<close>

fun record_all :: "string \<Rightarrow> string \<Rightarrow> int list \<Rightarrow> store \<Rightarrow> error + store" where
  "record_all a m [] f = Inr f"
| "record_all a m (t # ts) f =
     (case update_usage a m t f of Inl e \<Rightarrow> Inl e | Inr f' \<Rightarrow> record_all a m ts f')"

text \<open>Reading a ledger: the record of an agent, and the counter record of an (agent, model) pair.\<close>

definition agent_entry :: "json \<Rightarrow> string \<Rightarrow> json option" where
  "agent_entry usage a = (case usage of JObj d \<Rightarrow> map_of d a | _ \<Rightarrow> None)"

definition counter_entry :: "json \<Rightarrow> string \<Rightarrow> string \<Rightarrow> json option" where
  "counter_entry usage a m =
     (case agent_entry usage a of Some (JObj ms) \<Rightarrow> map_of ms m | _ \<Rightarrow> None)"

definition counter :: "int \<Rightarrow> int \<Rightarrow> json" where
  "counter calls tokens = JObj [(''numApiCalls'', JInt calls), (''totalTokens'', JInt tokens)]"

section \<open>The language-model wrapper (model\_tracker.py)\<close>

text \<open>
  The result of a model call, as far as \<open>_extract_text\<close> looks at it: its \<open>content\<close>
  attribute and the text \<open>str(result)\<close>. A content part is a dict with a \<open>"text"\<close> entry that
  is a \<open>str\<close>, a dict with a \<open>"text"\<close> entry of another type, a dict without one, or not a dict
  (given by its \<open>str()\<close>).
\<close>

datatype part = DictText string | DictOtherText | DictNoText | NonDict string

datatype message_content = CStr string | CList "part list" | COther string | CNone

record ai_message =
  content :: message_content
  as_str :: string

fun collect_parts :: "part list \<Rightarrow> string option list" where
  "collect_parts [] = []"
| "collect_parts (DictText t # ps) = Some t # collect_parts ps"
| "collect_parts (DictOtherText # ps) = None # collect_parts ps"
| "collect_parts (DictNoText # ps) = collect_parts ps"
| "collect_parts (NonDict r # ps) = Some r # collect_parts ps"

fun join_str :: "string \<Rightarrow> string list \<Rightarrow> string" where
  "join_str sep [] = []"
| "join_str sep [x] = x"
| "join_str sep (x # y # ys) = x @ sep @ join_str sep (y # ys)"

text \<open>\<open>sep.join(parts)\<close>: a part that is not a \<open>str\<close> (\<open>None\<close> here) raises \<open>TypeError\<close>.\<close>

definition join :: "string \<Rightarrow> string option list \<Rightarrow> error + string" where
  "join sep parts =
     (if list_all (\<lambda>p. p \<noteq> None) parts then Inr (join_str sep (map the parts))
      else Inl TypeError)"

definition nl :: string where
  "nl = [CHR 0x0A]"

definition extract_text :: "ai_message \<Rightarrow> error + string" where
  "extract_text result =
     (case content result of
        CStr c \<Rightarrow> Inr c
      | CList ps \<Rightarrow> join nl (collect_parts ps)
      | COther r \<Rightarrow> Inr r
      | CNone \<Rightarrow> Inr (as_str result))"

text \<open>
  \<open>TrackingChatGoogleGenerativeAI\<close>: the model name and the underlying model call
  (\<open>super().invoke\<close>), which answers a prompt or raises.
\<close>

record llm =
  model :: string
  chat :: "string \<Rightarrow> error + ai_message"

text \<open>\<open>invoke\<close> on the ledger file \<open>f\<close>: an exception at any step leaves the file as it was.\<close>

definition invoke :: "llm \<Rightarrow> string \<Rightarrow> string \<Rightarrow> store \<Rightarrow> (error + ai_message) \<times> store" where
  "invoke l prompt agent_name f =
     (case chat l prompt of
        Inl e \<Rightarrow> (Inl e, f)
      | Inr result \<Rightarrow>
          (case extract_text result of
             Inl e \<Rightarrow> (Inl e, f)
           | Inr text \<Rightarrow>
               (let tokens = estimate_tokens text
                in case update_usage agent_name (model l) tokens f of
                     Inl e \<Rightarrow> (Inl e, f)
                   | Inr f' \<Rightarrow> (Inr result, f'))))"

section \<open>The tool servers (mcp\_servers)\<close>

text \<open>
  What the server scripts take from outside: the constructor of the model wrapper, which gives
  the underlying model call or raises with a message, and the instruction texts of the five
  prompts, which are string literals of the source.
\<close>

record config =
  new_chat :: "string + (string \<Rightarrow> error + ai_message)"
  plan_instructions :: string
  review_instructions :: string
  refine_instructions :: string
  codegen_instructions :: string
  testgen_instructions :: string

definition get_text :: "ai_message \<Rightarrow> string" where
  "get_text result = (case extract_text result of Inr t \<Rightarrow> t | Inl e \<Rightarrow> as_str result)"

text \<open>Every tool call runs in a fresh process, so \<open>_llm\<close> is \<open>None\<close> when \<open>_get_llm\<close> is called.
  The wrapper's \<open>self.model\<close> is the name given to the constructor.\<close>

definition get_llm :: "config \<Rightarrow> llm option \<times> string option" where
  "get_llm cfg =
     (case new_chat cfg of
        Inr c \<Rightarrow> (Some \<lparr>model = ''gemini-2.5-flash'', chat = c\<rparr>, None)
      | Inl e \<Rightarrow> (None, Some (''LLM initialization failed: '' @ e)))"

text \<open>\<open>if err or llm is None: return f"ERROR: {err}"\<close>, else the prompt goes to the model under
  the given agent name and the text of the answer is returned.\<close>

definition ask :: "config \<Rightarrow> string \<Rightarrow> (llm \<Rightarrow> string \<Rightarrow> store \<Rightarrow> (error + ai_message) \<times> store)
     \<Rightarrow> store \<Rightarrow> (error + string) \<times> store" where
  "ask cfg prompt invoke_with f =
     (case get_llm cfg of (l, err) \<Rightarrow>
        (if (case err of Some m \<Rightarrow> m \<noteq> [] | None \<Rightarrow> False) \<or> l = None
         then (Inr (''ERROR: '' @ (case err of Some m \<Rightarrow> m | None \<Rightarrow> ''None'')), f)
         else (case invoke_with (the l) prompt f of
                 (Inl e, f') \<Rightarrow> (Inl e, f')
               | (Inr result, f') \<Rightarrow> (Inr (get_text result), f'))))"

text \<open>refinement\_server.py. \<open>generate_plan\<close> and \<open>review_code\<close> call \<open>llm.invoke(prompt)\<close>
  with no agent name, so the default \<open>"UnknownAgent"\<close> of \<open>invoke\<close> applies.\<close>

definition generate_plan :: "config \<Rightarrow> string \<Rightarrow> store \<Rightarrow> (error + string) \<times> store" where
  "generate_plan cfg description f =
     ask cfg (strip (plan_instructions cfg) @ nl @ nl @ ''Application Description:'' @ nl
              @ strip description @ nl)
       (\<lambda>l prompt. invoke l prompt ''UnknownAgent'') f"

definition review_code :: "config \<Rightarrow> string \<Rightarrow> string \<Rightarrow> store \<Rightarrow> (error + string) \<times> store" where
  "review_code cfg app_code tests f =
     ask cfg (strip (review_instructions cfg) @ nl @ nl @ ''APP CODE:'' @ nl @ app_code @ nl @ nl
              @ ''TEST CODE:'' @ nl @ tests @ nl)
       (\<lambda>l prompt. invoke l prompt ''UnknownAgent'') f"

definition refine_code :: "config \<Rightarrow> string \<Rightarrow> string \<Rightarrow> store \<Rightarrow> (error + string) \<times> store" where
  "refine_code cfg app_code feedback f =
     ask cfg (strip (refine_instructions cfg) @ nl @ nl @ ''CURRENT APP CODE:'' @ nl @ app_code
              @ nl @ nl @ ''FEEDBACK:'' @ nl @ feedback @ nl)
       (\<lambda>l prompt. invoke l prompt ''RefinementAgent'') f"

text \<open>codegen\_server.py; \<open>plan\<close> is optional, and an empty plan is left out of the prompt.\<close>

definition generate_app_code ::
  "config \<Rightarrow> string \<Rightarrow> string option \<Rightarrow> store \<Rightarrow> (error + string) \<times> store" where
  "generate_app_code cfg description plan f =
     ask cfg (strip (codegen_instructions cfg) @ nl @ nl @ ''Application Description:'' @ nl
              @ strip description
              @ (case plan of
                   None \<Rightarrow> []
                 | Some p \<Rightarrow> (if p \<noteq> [] then nl @ nl @ ''High-Level Plan:'' @ nl @ strip p else [])))
       (\<lambda>l prompt. invoke l prompt ''CodeGenerator'') f"

text \<open>testgen\_server.py\<close>

definition generate_tests :: "config \<Rightarrow> string \<Rightarrow> string \<Rightarrow> store \<Rightarrow> (error + string) \<times> store" where
  "generate_tests cfg app_code description f =
     ask cfg (strip (testgen_instructions cfg) @ nl @ nl @ ''Application Description:'' @ nl
              @ strip description @ nl @ nl @ ''Application Code:'' @ nl @ app_code @ nl)
       (\<lambda>l prompt. invoke l prompt ''TestGenerator'') f"

section \<open>The remote tool client (orchestrator\_client.py)\<close>

type_synonym path = string
type_synonym args = "(string \<times> string) list"

text \<open>
  What a tool returns to the orchestrator: a \<open>str\<close>, or a value of another type, which is
  represented by the text that \<open>str()\<close> makes of it.
\<close>

datatype tool_value = Text string | NonText string

text \<open>\<open>if not isinstance(x, str): x = str(x)\<close>\<close>

definition to_str :: "tool_value \<Rightarrow> string" where
  "to_str v = (case v of Text s \<Rightarrow> s | NonText r \<Rightarrow> r)"

text \<open>
  A discovered tool has a name and can be invoked with an argument mapping; the invocation
  may change the world \<open>'w\<close> outside the orchestrator (the ledger file among it) and may fail.
  Launching a server script (process start, handshake, \<open>load_mcp_tools\<close>) gives the tool
  catalog or fails.
\<close>

record 'w tool =
  name :: string
  ainvoke :: "args \<Rightarrow> 'w \<Rightarrow> (error + tool_value) \<times> 'w"

type_synonym 'w server = "'w \<Rightarrow> (error + 'w tool list) \<times> 'w"

definition call_mcp_tool ::
  "(path \<Rightarrow> 'w server) \<Rightarrow> path \<Rightarrow> string \<Rightarrow> args \<Rightarrow> 'w \<Rightarrow> (error + tool_value) \<times> 'w" where
  "call_mcp_tool launch server_script tool_name arguments w =
     (case launch server_script w of
        (Inl e, w1) \<Rightarrow> (Inl e, w1)
      | (Inr tools, w1) \<Rightarrow>
          (case find (\<lambda>tool. name tool = tool_name) tools of
             None \<Rightarrow> (Inl (ToolNotFound tool_name server_script (map name tools)), w1)
           | Some target_tool \<Rightarrow> ainvoke target_tool arguments w1))"

section \<open>The pipeline (orchestrator\_client.py, gradio\_app.py)\<close>

text \<open>
  The collaborators of a run: how a server script is launched, the artifact packager
  \<open>create_zip_from_strings\<close> (it returns the path of the bundle), and where the ledger
  file is in the world.
\<close>

record 'w env =
  launch :: "path \<Rightarrow> 'w server"
  create_zip_from_strings :: "string \<Rightarrow> string \<Rightarrow> string \<Rightarrow> 'w \<Rightarrow> path \<times> 'w"
  usage_file :: "'w \<Rightarrow> store"

text \<open>
  A run is observed through the list of its events, oldest first: each call of
  \<open>_call_mcp_tool\<close> with its server, tool name, arguments and outcome, and each call of the
  packager with its three arguments.
\<close>

datatype event =
    Called path string args "error + tool_value"
  | Packaged string string string

definition traced_call ::
  "'w env \<Rightarrow> path \<Rightarrow> string \<Rightarrow> args \<Rightarrow> event list \<times> 'w
     \<Rightarrow> (error + tool_value) \<times> event list \<times> 'w" where
  "traced_call env server_script tool_name arguments s =
     (case s of (tr, w) \<Rightarrow>
        (case call_mcp_tool (launch env) server_script tool_name arguments w of
           (r, w') \<Rightarrow> (r, tr @ [Called server_script tool_name arguments r], w')))"

definition refinement_server :: path where
  "refinement_server = ''mcp_servers/refinement_server.py''"

definition codegen_server :: path where
  "codegen_server = ''mcp_servers/codegen_server.py''"

definition testgen_server :: path where
  "testgen_server = ''mcp_servers/testgen_server.py''"

text \<open>\<open>isinstance(refined_code, str) and refined_code.strip()\<close>\<close>

definition usable :: "tool_value \<Rightarrow> bool" where
  "usable v = (case v of Text r \<Rightarrow> strip r \<noteq> [] | NonText r \<Rightarrow> False)"

definition run_pipeline_async ::
  "'w env \<Rightarrow> string \<Rightarrow> event list \<times> 'w \<Rightarrow> (error + path \<times> json) \<times> event list \<times> 'w" where
  "run_pipeline_async env description s0 =
     (case traced_call env refinement_server ''generate_plan''
             [(''description'', description)] s0 of
        (Inl e, s1) \<Rightarrow> (Inl e, s1)
      | (Inr plan_v, s1) \<Rightarrow>
     (let plan = to_str plan_v in
      case traced_call env codegen_server ''generate_app_code''
             [(''description'', description), (''plan'', plan)] s1 of
        (Inl e, s2) \<Rightarrow> (Inl e, s2)
      | (Inr app_v, s2) \<Rightarrow>
     (let app_code = to_str app_v in
      case traced_call env testgen_server ''generate_tests''
             [(''app_code'', app_code), (''description'', description)] s2 of
        (Inl e, s3) \<Rightarrow> (Inl e, s3)
      | (Inr tests_v, s3) \<Rightarrow>
     (let tests_code = to_str tests_v in
      case traced_call env refinement_server ''review_code''
             [(''app_code'', app_code), (''tests'', tests_code)] s3 of
        (Inl e, s4) \<Rightarrow> (Inl e, s4)
      | (Inr feedback_v, s4) \<Rightarrow>
     (let feedback = to_str feedback_v in
      case (if \<not> sublist ''OK_TO_USE'' feedback
            then (case traced_call env refinement_server ''refine_code''
                         [(''app_code'', app_code), (''feedback'', feedback)] s4 of
                    (Inl e, s5) \<Rightarrow> (Inl e, s5)
                  | (Inr refined_code, s5) \<Rightarrow>
                      (Inr (if usable refined_code then to_str refined_code else app_code), s5))
            else (Inr app_code, s4)) of
        (Inl e, s5) \<Rightarrow> (Inl e, s5)
      | (Inr final_code, tr5, w5) \<Rightarrow>
          (case create_zip_from_strings env final_code tests_code description w5 of
             (zip_path, w6) \<Rightarrow>
               (Inr (zip_path, get_model_usage (usage_file env w6)),
                tr5 @ [Packaged final_code tests_code description], w6)))))))"

definition run_pipeline ::
  "'w env \<Rightarrow> string \<Rightarrow> event list \<times> 'w \<Rightarrow> (error + path \<times> json) \<times> event list \<times> 'w" where
  "run_pipeline env description s = run_pipeline_async env description s"

definition generate_app_and_tests ::
  "'w env \<Rightarrow> string \<Rightarrow> event list \<times> 'w \<Rightarrow> (error + path \<times> json) \<times> event list \<times> 'w" where
  "generate_app_and_tests env description s =
     (if description = [] \<or> strip description = []
      then (Inl ValidationError, s)
      else (case run_pipeline env (strip description) s of
              (Inl e, s') \<Rightarrow> (Inl (GenerationFailed e), s')
            | (Inr r, s') \<Rightarrow> (Inr r, s')))"

text \<open>Reading a trace.\<close>

fun is_refine :: "event \<Rightarrow> bool" where
  "is_refine (Called p t a r) = (t = ''refine_code'')"
| "is_refine (Packaged a t d) = False"

fun is_packaged :: "event \<Rightarrow> bool" where
  "is_packaged (Called p t a r) = False"
| "is_packaged (Packaged a t d) = True"

text \<open>
  The three server scripts as the client sees them. The world of a tool is the ledger file.
  A required argument that is missing and an exception inside the tool come back as a
  \<open>ToolException\<close>; the text a tool returns comes back as a \<open>str\<close>.
\<close>

definition deliver :: "(error + string) \<times> store \<Rightarrow> (error + tool_value) \<times> store" where
  "deliver r =
     (case r of
        (Inl e, f) \<Rightarrow> (Inl (ToolException e), f)
      | (Inr t, f) \<Rightarrow> (Inr (Text t), f))"

definition missing :: "string \<Rightarrow> store \<Rightarrow> (error + tool_value) \<times> store" where
  "missing k f = (Inl (ToolException (KeyError k)), f)"

definition refinement_tools :: "config \<Rightarrow> store tool list" where
  "refinement_tools cfg =
     [\<lparr>name = ''generate_plan'',
       ainvoke = (\<lambda>a f. case map_of a ''description'' of
                    None \<Rightarrow> missing ''description'' f
                  | Some d \<Rightarrow> deliver (generate_plan cfg d f))\<rparr>,
      \<lparr>name = ''review_code'',
       ainvoke = (\<lambda>a f. case map_of a ''app_code'' of
                    None \<Rightarrow> missing ''app_code'' f
                  | Some c \<Rightarrow>
                      (case map_of a ''tests'' of
                         None \<Rightarrow> missing ''tests'' f
                       | Some t \<Rightarrow> deliver (review_code cfg c t f)))\<rparr>,
      \<lparr>name = ''refine_code'',
       ainvoke = (\<lambda>a f. case map_of a ''app_code'' of
                    None \<Rightarrow> missing ''app_code'' f
                  | Some c \<Rightarrow>
                      (case map_of a ''feedback'' of
                         None \<Rightarrow> missing ''feedback'' f
                       | Some b \<Rightarrow> deliver (refine_code cfg c b f)))\<rparr>]"

definition codegen_tools :: "config \<Rightarrow> store tool list" where
  "codegen_tools cfg =
     [\<lparr>name = ''generate_app_code'',
       ainvoke = (\<lambda>a f. case map_of a ''description'' of
                    None \<Rightarrow> missing ''description'' f
                  | Some d \<Rightarrow> deliver (generate_app_code cfg d (map_of a ''plan'') f))\<rparr>]"

definition testgen_tools :: "config \<Rightarrow> store tool list" where
  "testgen_tools cfg =
     [\<lparr>name = ''generate_tests'',
       ainvoke = (\<lambda>a f. case map_of a ''app_code'' of
                    None \<Rightarrow> missing ''app_code'' f
                  | Some c \<Rightarrow>
                      (case map_of a ''description'' of
                         None \<Rightarrow> missing ''description'' f
                       | Some d \<Rightarrow> deliver (generate_tests cfg c d f)))\<rparr>]"

definition launch_script :: "config \<Rightarrow> path \<Rightarrow> store server" where
  "launch_script cfg p f =
     (if p = refinement_server then (Inr (refinement_tools cfg), f)
      else if p = codegen_server then (Inr (codegen_tools cfg), f)
      else if p = testgen_server then (Inr (testgen_tools cfg), f)
      else (Inl (TransportError p), f))"

text \<open>The program as deployed: the three scripts, a packager that leaves the ledger file alone,
  and the ledger file as the whole world.\<close>

definition deployed :: "config \<Rightarrow> (string \<Rightarrow> string \<Rightarrow> string \<Rightarrow> path) \<Rightarrow> store env" where
  "deployed cfg zip_name =
     \<lparr>launch = launch_script cfg,
      create_zip_from_strings = (\<lambda>app_code tests_code description f.
         (zip_name app_code tests_code description, f)),
      usage_file = (\<lambda>f. f)\<rparr>"

text \<open>Reading a ledger: the calls recorded in a counter record, and in a whole ledger.\<close>

definition calls_of :: "json \<Rightarrow> int" where
  "calls_of c =
     (case c of
        JObj st \<Rightarrow> (case map_of st ''numApiCalls'' of Some (JInt n) \<Rightarrow> n | _ \<Rightarrow> 0)
      | _ \<Rightarrow> 0)"

definition agent_calls :: "json \<Rightarrow> int" where
  "agent_calls ms = (case ms of JObj l \<Rightarrow> sum_list (map (\<lambda>e. calls_of (snd e)) l) | _ \<Rightarrow> 0)"

definition total_calls :: "json \<Rightarrow> int" where
  "total_calls usage =
     (case usage of JObj d \<Rightarrow> sum_list (map (\<lambda>e. agent_calls (snd e)) d) | _ \<Rightarrow> 0)"

section \<open>Stub tool servers\<close>

text \<open>
  Stub servers for running the pipeline on concrete inputs: a stub tool returns a fixed
  outcome, the world is empty, the packager returns a fixed path and the ledger file is absent.
  \<open>canned\<close> is the catalog of the three scripts with fixed plan, code, tests and review
  results; the refinement server's remaining tools are given as a list.
\<close>

definition stub_tool :: "string \<Rightarrow> error + tool_value \<Rightarrow> unit tool" where
  "stub_tool n r = \<lparr>name = n, ainvoke = (\<lambda>a w. (r, w))\<rparr>"

definition stub_env :: "(path \<Rightarrow> unit tool list) \<Rightarrow> unit env" where
  "stub_env catalog =
     \<lparr>launch = (\<lambda>p w. (Inr (catalog p), w)),
      create_zip_from_strings = (\<lambda>app_code tests_code description w. (''generated_app.zip'', w)),
      usage_file = (\<lambda>w. \<lparr>held = Missing, writable = True\<rparr>)\<rparr>"

definition canned ::
  "tool_value \<Rightarrow> tool_value \<Rightarrow> tool_value \<Rightarrow> tool_value \<Rightarrow> unit tool list
     \<Rightarrow> path \<Rightarrow> unit tool list" where
  "canned plan app tests review others p =
     (if p = refinement_server
      then [stub_tool ''generate_plan'' (Inr plan), stub_tool ''review_code'' (Inr review)] @ others
      else if p = codegen_server then [stub_tool ''generate_app_code'' (Inr app)]
      else if p = testgen_server then [stub_tool ''generate_tests'' (Inr tests)]
      else [])"

text \<open>
  Recording servers: each tool appends the call it received, with the outcome it gave, to the
  world, and the packager appends what it was given. The world of a run is then the list of
  what the tools and the packager themselves saw. \<open>scripted\<close> gives the three scripts their
  tools with fixed outcomes.
\<close>

definition recording_tool :: "path \<Rightarrow> string \<Rightarrow> error + tool_value \<Rightarrow> event list tool" where
  "recording_tool p n r = \<lparr>name = n, ainvoke = (\<lambda>a seen. (r, seen @ [Called p n a r]))\<rparr>"

definition recording_env ::
  "(path \<Rightarrow> (string \<times> (error + tool_value)) list) \<Rightarrow> event list env" where
  "recording_env script =
     \<lparr>launch = (\<lambda>p seen. (Inr (map (\<lambda>e. recording_tool p (fst e) (snd e)) (script p)), seen)),
      create_zip_from_strings = (\<lambda>app_code tests_code description seen.
         (''generated_app.zip'', seen @ [Packaged app_code tests_code description])),
      usage_file = (\<lambda>seen. \<lparr>held = Missing, writable = True\<rparr>)\<rparr>"

definition scripted ::
  "tool_value \<Rightarrow> tool_value \<Rightarrow> tool_value \<Rightarrow> tool_value \<Rightarrow> tool_value
     \<Rightarrow> path \<Rightarrow> (string \<times> (error + tool_value)) list" where
  "scripted plan app tests review refined p =
     (if p = refinement_server
      then [(''generate_plan'', Inr plan), (''review_code'', Inr review),
            (''refine_code'', Inr refined)]
      else if p = codegen_server then [(''generate_app_code'', Inr app)]
      else if p = testgen_server then [(''generate_tests'', Inr tests)]
      else [])"

text \<open>A model backend for the deployed servers that answers each of the four prompts of a
  run with a fixed text; the review answer carries the acceptance marker.\<close>

definition answer :: "string \<Rightarrow> error + ai_message" where
  "answer t = Inr \<lparr>content = CStr t, as_str = t\<rparr>"

definition canned_chat :: "string \<Rightarrow> error + ai_message" where
  "canned_chat prompt =
     (if sublist ''TEST CODE:'' prompt then answer ''looks fine OK_TO_USE''
      else if sublist ''Application Code:'' prompt then answer ''def test_app(): pass''
      else if sublist ''High-Level Plan:'' prompt then answer ''print(1)''
      else answer ''1. do it'')"

definition fixed_zip :: "string \<Rightarrow> string \<Rightarrow> string \<Rightarrow> path" where
  "fixed_zip app_code tests_code description = ''generated_app.zip''"

definition canned_config :: config where
  "canned_config =
     \<lparr>new_chat = Inr canned_chat, plan_instructions = ''plan'', review_instructions = ''review'',
      refine_instructions = ''refine'', codegen_instructions = ''codegen'',
      testgen_instructions = ''testgen''\<rparr>"

section \<open>Auxiliary facts\<close>

lemma dropWhile_only:
  "(\<forall>x\<in>set (dropWhile P xs). P x) \<longleftrightarrow> (\<forall>x\<in>set xs. P x)"
proof
  assume all: "\<forall>x\<in>set (dropWhile P xs). P x"
  have "dropWhile P xs = []"
  proof (rule ccontr)
    assume ne: "dropWhile P xs \<noteq> []"
    then have "\<not> P (hd (dropWhile P xs))" by (rule hd_dropWhile)
    moreover have "hd (dropWhile P xs) \<in> set (dropWhile P xs)" using ne by (rule hd_in_set)
    ultimately show False using all by blast
  qed
  then show "\<forall>x\<in>set xs. P x" by (simp only: dropWhile_eq_Nil_conv)
next
  assume "\<forall>x\<in>set xs. P x"
  then show "\<forall>x\<in>set (dropWhile P xs). P x" by (blast dest: set_dropWhileD)
qed

lemma strip_blank_iff: "strip s = [] \<longleftrightarrow> list_all isspace s"
  by (simp add: strip_def dropWhile_only list_all_iff)

lemma traced_callE:
  "traced_call env p t a (tr, w) = (r, tr', w') \<Longrightarrow>
     tr' = tr @ [Called p t a r] \<and> call_mcp_tool (launch env) p t a w = (r, w')"
  by (auto simp: traced_call_def split: prod.splits)

lemmas servers = refinement_server_def codegen_server_def testgen_server_def

lemma load_usage_Stored: "held f = Stored j \<Longrightarrow> load_usage f = j"
  by (simp add: load_usage_def exists_def read_json_def)

lemma load_usage_saved: "load_usage (f\<lparr>held := Stored j\<rparr>) = j"
  by (simp add: load_usage_Stored)

lemma update_usage_first:
  "load_usage f = JObj [] \<Longrightarrow>
     update_usage a m t f =
       (if writable f then Inr (f\<lparr>held := Stored (JObj [(a, JObj [(m, counter 1 t)])])\<rparr>)
        else Inl OSError)"
  by (simp add: update_usage_def add_field_def save_usage_def counter_def)

lemma update_usage_single:
  "held f = Stored (JObj [(a, JObj [(m, counter c s)])]) \<Longrightarrow> writable f \<Longrightarrow>
     update_usage a m t f
       = Inr (f\<lparr>held := Stored (JObj [(a, JObj [(m, counter (c + 1) (s + t))])])\<rparr>)"
  by (simp add: update_usage_def load_usage_Stored add_field_def save_usage_def counter_def)

lemma record_all_single:
  "held f = Stored (JObj [(a, JObj [(m, counter c s)])]) \<Longrightarrow> writable f \<Longrightarrow>
     record_all a m ts f
       = Inr (f\<lparr>held := Stored (JObj [(a, JObj [(m, counter (c + int (length ts))
                                                      (s + sum_list ts))])])\<rparr>)"
proof (induction ts arbitrary: f c s)
  case Nil
  then show ?case by simp
next
  case (Cons t ts)
  have step: "update_usage a m t f
       = Inr (f\<lparr>held := Stored (JObj [(a, JObj [(m, counter (c + 1) (s + t))])])\<rparr>)"
    using Cons.prems by (rule update_usage_single)
  have "record_all a m ts (f\<lparr>held := Stored (JObj [(a, JObj [(m, counter (c + 1) (s + t))])])\<rparr>)
       = Inr (f\<lparr>held := Stored (JObj [(a, JObj [(m, counter (c + 1 + int (length ts))
                                                      (s + t + sum_list ts))])])\<rparr>)"
    using Cons.IH [of "f\<lparr>held := Stored (JObj [(a, JObj [(m, counter (c + 1) (s + t))])])\<rparr>"
        "c + 1" "s + t"] Cons.prems(2)
    by simp
  moreover have "c + 1 + int (length ts) = c + int (length (t # ts))"
    and "s + t + sum_list ts = s + sum_list (t # ts)"
    by simp_all
  ultimately have "record_all a m ts
       (f\<lparr>held := Stored (JObj [(a, JObj [(m, counter (c + 1) (s + t))])])\<rparr>)
       = Inr (f\<lparr>held := Stored (JObj [(a, JObj [(m, counter (c + int (length (t # ts)))
                                                      (s + sum_list (t # ts)))])])\<rparr>)"
    by (simp only:)
  then show ?case
    using step by (simp del: list.size sum_list.Cons)
qed

section \<open>The usage ledger: counting, recovery, frame\<close>

text \<open>
  C6. Starting from a backing store that loads as the empty ledger and can be written, \<open>N\<close>
  sequential \<open>record(a, m, t\<^sub>i)\<close> updates all succeed, and \<open>read()\<close> then reports for the pair
  \<open>(a, m)\<close> the counter record with \<open>numApiCalls = N\<close> and \<open>totalTokens = t\<^sub>1 + ... + t\<^sub>N\<close>;
  for \<open>N = 0\<close> there is no record for the pair.
\<close>

theorem record_all_counts:
  assumes "load_usage f = JObj []" and "writable f"
  shows "\<exists>f'. record_all a m ts f = Inr f' \<and>
           counter_entry (get_model_usage f') a m =
             (if ts = [] then None else Some (counter (int (length ts)) (sum_list ts)))"
proof (cases ts)
  case Nil
  then show ?thesis
    using assms by (simp add: get_model_usage_def counter_entry_def agent_entry_def)
next
  case (Cons t ts')
  have first: "update_usage a m t f
      = Inr (f\<lparr>held := Stored (JObj [(a, JObj [(m, counter 1 t)])])\<rparr>)"
    using assms by (simp add: update_usage_first)
  have rest: "record_all a m ts' (f\<lparr>held := Stored (JObj [(a, JObj [(m, counter 1 t)])])\<rparr>)
      = Inr (f\<lparr>held := Stored (JObj [(a, JObj [(m, counter (1 + int (length ts'))
                                                      (t + sum_list ts'))])])\<rparr>)"
    using record_all_single [of "f\<lparr>held := Stored (JObj [(a, JObj [(m, counter 1 t)])])\<rparr>"
        a m 1 t ts'] assms(2)
    by simp
  show ?thesis
    using Cons first rest
    by (simp add: get_model_usage_def load_usage_saved counter_entry_def agent_entry_def
        add.commute)
qed

theorem record_all_counts_witness:
  "load_usage \<lparr>held = Missing, writable = True\<rparr> = JObj [] \<and>
   (\<exists>f'. record_all ''CodeGenerator'' ''gemini-2.5-flash'' [3, 4, 5]
            \<lparr>held = Missing, writable = True\<rparr> = Inr f' \<and>
      counter_entry (get_model_usage f') ''CodeGenerator'' ''gemini-2.5-flash''
        = Some (counter 3 12))"
proof -
  have h: "load_usage \<lparr>held = Missing, writable = True\<rparr> = JObj []"
    by (simp add: load_usage_def exists_def)
  have w: "writable \<lparr>held = Missing, writable = True\<rparr>"
    by simp
  show ?thesis
    using h record_all_counts [OF h w, of "''CodeGenerator''" "''gemini-2.5-flash''" "[3, 4, 5]"]
    by simp
qed




text \<open>
  C10. A successful \<open>record(agent, model, tokens)\<close> writes a ledger that agrees with the
  loaded one on the record of every other agent and, under the same agent, on the counter
  record of every other model.
\<close>

theorem update_usage_frame:
  assumes "update_usage a m t f = Inr f'"
  shows "(a' \<noteq> a \<longrightarrow> agent_entry (load_usage f') a' = agent_entry (load_usage f) a') \<and>
         ((a', m') \<noteq> (a, m) \<longrightarrow>
            counter_entry (load_usage f') a' m' = counter_entry (load_usage f) a' m')"
proof -
  have other_agent: "agent_entry (load_usage f') b = agent_entry (load_usage f) b" if "b \<noteq> a" for b
    using assms that
    by (auto simp: update_usage_def agent_entry_def save_usage_def Let_def update_conv'
        load_usage_saved split: json.splits option.splits sum.splits if_splits)
  have other_model: "counter_entry (load_usage f') a n = counter_entry (load_usage f) a n"
    if "n \<noteq> m" for n
    using assms that
    by (auto simp: update_usage_def counter_entry_def agent_entry_def save_usage_def Let_def
        update_conv' load_usage_saved split: json.splits option.splits sum.splits if_splits)
  show ?thesis
  proof (intro conjI impI)
    assume "a' \<noteq> a"
    then show "agent_entry (load_usage f') a' = agent_entry (load_usage f) a'"
      by (rule other_agent)
  next
    assume ne: "(a', m') \<noteq> (a, m)"
    show "counter_entry (load_usage f') a' m' = counter_entry (load_usage f) a' m'"
    proof (cases "a' = a")
      case True
      then have "m' \<noteq> m" using ne by simp
      then show ?thesis using True other_model by simp
    next
      case False
      then show ?thesis using other_agent by (simp add: counter_entry_def)
    qed
  qed
qed

theorem update_usage_frame_witness:
  "update_usage ''CodeGenerator'' ''gemini-2.5-flash'' 5
      \<lparr>held = Stored (JObj [(''TestGenerator'', JObj [(''gemini-2.5-flash'', counter 2 9)])]),
       writable = True\<rparr>
     = Inr \<lparr>held = Stored (JObj [(''TestGenerator'', JObj [(''gemini-2.5-flash'', counter 2 9)]),
                                (''CodeGenerator'', JObj [(''gemini-2.5-flash'', counter 1 5)])]),
            writable = True\<rparr> \<and>
   counter_entry
     (load_usage
        \<lparr>held = Stored (JObj [(''TestGenerator'', JObj [(''gemini-2.5-flash'', counter 2 9)]),
                              (''CodeGenerator'', JObj [(''gemini-2.5-flash'', counter 1 5)])]),
         writable = True\<rparr>)
     ''TestGenerator'' ''gemini-2.5-flash'' = Some (counter 2 9)"
proof -
  have u: "update_usage ''CodeGenerator'' ''gemini-2.5-flash'' 5
      \<lparr>held = Stored (JObj [(''TestGenerator'', JObj [(''gemini-2.5-flash'', counter 2 9)])]),
       writable = True\<rparr>
     = Inr \<lparr>held = Stored (JObj [(''TestGenerator'', JObj [(''gemini-2.5-flash'', counter 2 9)]),
                                (''CodeGenerator'', JObj [(''gemini-2.5-flash'', counter 1 5)])]),
            writable = True\<rparr>"
    by (simp add: update_usage_def load_usage_Stored add_field_def save_usage_def counter_def)
  show ?thesis
    using u update_usage_frame [OF u, of "''TestGenerator''" "''gemini-2.5-flash''"]
    by (simp add: load_usage_Stored counter_entry_def agent_entry_def)
qed

section \<open>The pipeline: branch, refinement, validation, abort, frame\<close>

lemma accepted_code:
  "(if usable v then to_str v else c) =
     (case v of Text r \<Rightarrow> if list_all isspace r then c else r | NonText r \<Rightarrow> c)"
  by (simp add: usable_def to_str_def strip_blank_iff split: tool_value.splits)

lemma not_found_raised:
  assumes "launch env p w = (Inr tools, w1)" and "t \<notin> set (map name tools)"
  shows "call_mcp_tool (launch env) p t a w = (Inl (ToolNotFound t p (map name tools)), w1)"
proof -
  have "find (\<lambda>tool. name tool = t) tools = None"
    using assms(2) by (auto simp: find_None_iff)
  then show ?thesis
    using assms(1) by (simp add: call_mcp_tool_def)
qed

lemma failed_call_aborts:
  assumes "run_pipeline_async env d ([], w) = (res, tr, w')"
    and "Called p t a (Inl e) \<in> set tr"
  shows "res = Inl e \<and> filter is_packaged tr = []"
  using assms unfolding run_pipeline_async_def Let_def
  by (auto split: prod.splits sum.splits if_splits dest!: traced_callE)

lemma run_with_marker:
  assumes c1: "call_mcp_tool (launch env) refinement_server ''generate_plan''
                [(''description'', d)] w = (Inr v1, w1)"
    and c2: "call_mcp_tool (launch env) codegen_server ''generate_app_code''
                [(''description'', d), (''plan'', to_str v1)] w1 = (Inr v2, w2)"
    and c3: "call_mcp_tool (launch env) testgen_server ''generate_tests''
                [(''app_code'', to_str v2), (''description'', d)] w2 = (Inr v3, w3)"
    and c4: "call_mcp_tool (launch env) refinement_server ''review_code''
                [(''app_code'', to_str v2), (''tests'', to_str v3)] w3 = (Inr v4, w4)"
    and marker: "sublist ''OK_TO_USE'' (to_str v4)"
  shows "run_pipeline_async env d ([], w) =
     (case create_zip_from_strings env (to_str v2) (to_str v3) d w4 of
        (z, w6) \<Rightarrow>
          (Inr (z, get_model_usage (usage_file env w6)),
           [Called refinement_server ''generate_plan'' [(''description'', d)] (Inr v1),
         Called codegen_server ''generate_app_code''
           [(''description'', d), (''plan'', to_str v1)] (Inr v2),
         Called testgen_server ''generate_tests''
           [(''app_code'', to_str v2), (''description'', d)] (Inr v3),
         Called refinement_server ''review_code''
           [(''app_code'', to_str v2), (''tests'', to_str v3)] (Inr v4),
         Packaged (to_str v2) (to_str v3) d], w6))"
  by (simp add: run_pipeline_async_def traced_call_def Let_def c1 c2 c3 c4 marker
      split: prod.splits)

lemma run_without_marker:
  assumes c1: "call_mcp_tool (launch env) refinement_server ''generate_plan''
                [(''description'', d)] w = (Inr v1, w1)"
    and c2: "call_mcp_tool (launch env) codegen_server ''generate_app_code''
                [(''description'', d), (''plan'', to_str v1)] w1 = (Inr v2, w2)"
    and c3: "call_mcp_tool (launch env) testgen_server ''generate_tests''
                [(''app_code'', to_str v2), (''description'', d)] w2 = (Inr v3, w3)"
    and c4: "call_mcp_tool (launch env) refinement_server ''review_code''
                [(''app_code'', to_str v2), (''tests'', to_str v3)] w3 = (Inr v4, w4)"
    and no_marker: "\<not> sublist ''OK_TO_USE'' (to_str v4)"
  shows "run_pipeline_async env d ([], w) =
     (case call_mcp_tool (launch env) refinement_server ''refine_code''
             [(''app_code'', to_str v2), (''feedback'', to_str v4)] w4 of
        (Inl e, w5) \<Rightarrow>
          (Inl e,
           [Called refinement_server ''generate_plan'' [(''description'', d)] (Inr v1),
         Called codegen_server ''generate_app_code''
           [(''description'', d), (''plan'', to_str v1)] (Inr v2),
         Called testgen_server ''generate_tests''
           [(''app_code'', to_str v2), (''description'', d)] (Inr v3),
         Called refinement_server ''review_code''
           [(''app_code'', to_str v2), (''tests'', to_str v3)] (Inr v4),
         Called refinement_server ''refine_code''
           [(''app_code'', to_str v2), (''feedback'', to_str v4)] (Inl e)], w5)
      | (Inr v5, w5) \<Rightarrow>
          (case create_zip_from_strings env (if usable v5 then to_str v5 else to_str v2)
                  (to_str v3) d w5 of
             (z, w6) \<Rightarrow>
               (Inr (z, get_model_usage (usage_file env w6)),
                [Called refinement_server ''generate_plan'' [(''description'', d)] (Inr v1),
         Called codegen_server ''generate_app_code''
           [(''description'', d), (''plan'', to_str v1)] (Inr v2),
         Called testgen_server ''generate_tests''
           [(''app_code'', to_str v2), (''description'', d)] (Inr v3),
         Called refinement_server ''review_code''
           [(''app_code'', to_str v2), (''tests'', to_str v3)] (Inr v4),
         Called refinement_server ''refine_code''
           [(''app_code'', to_str v2), (''feedback'', to_str v4)] (Inr v5),
         Packaged (if usable v5 then to_str v5 else to_str v2) (to_str v3) d], w6)))"
  by (simp add: run_pipeline_async_def traced_call_def Let_def c1 c2 c3 c4 no_marker
      split: prod.splits sum.splits)

text \<open>
  C2. Let the plan, code-generation, test-generation and review calls return results, each
  call made on the world the one before left. If \<open>OK_TO_USE\<close> is a substring of the
  feedback text, the run goes from the world after the review straight to the packager: no
  further tool call is made. If it is not, the run makes one call of \<open>refine_code\<close> on the
  world after the review, with the code and the feedback as arguments, and what follows (the
  error, or the packaging) starts from the world that this call left. The trace of the run
  holds one \<open>refine_code\<close> call in the second case and none in the first.
\<close>

theorem refine_called_iff_no_marker:
  assumes c1: "call_mcp_tool (launch env) refinement_server ''generate_plan''
                [(''description'', d)] w = (Inr v1, w1)"
    and c2: "call_mcp_tool (launch env) codegen_server ''generate_app_code''
                [(''description'', d), (''plan'', to_str v1)] w1 = (Inr v2, w2)"
    and c3: "call_mcp_tool (launch env) testgen_server ''generate_tests''
                [(''app_code'', to_str v2), (''description'', d)] w2 = (Inr v3, w3)"
    and c4: "call_mcp_tool (launch env) refinement_server ''review_code''
                [(''app_code'', to_str v2), (''tests'', to_str v3)] w3 = (Inr v4, w4)"
  shows "run_pipeline_async env d ([], w) =
     (if sublist ''OK_TO_USE'' (to_str v4)
      then (case create_zip_from_strings env (to_str v2) (to_str v3) d w4 of
        (z, w6) \<Rightarrow>
          (Inr (z, get_model_usage (usage_file env w6)),
           [Called refinement_server ''generate_plan'' [(''description'', d)] (Inr v1),
         Called codegen_server ''generate_app_code''
           [(''description'', d), (''plan'', to_str v1)] (Inr v2),
         Called testgen_server ''generate_tests''
           [(''app_code'', to_str v2), (''description'', d)] (Inr v3),
         Called refinement_server ''review_code''
           [(''app_code'', to_str v2), (''tests'', to_str v3)] (Inr v4),
         Packaged (to_str v2) (to_str v3) d], w6))
      else (case call_mcp_tool (launch env) refinement_server ''refine_code''
             [(''app_code'', to_str v2), (''feedback'', to_str v4)] w4 of
        (Inl e, w5) \<Rightarrow>
          (Inl e,
           [Called refinement_server ''generate_plan'' [(''description'', d)] (Inr v1),
         Called codegen_server ''generate_app_code''
           [(''description'', d), (''plan'', to_str v1)] (Inr v2),
         Called testgen_server ''generate_tests''
           [(''app_code'', to_str v2), (''description'', d)] (Inr v3),
         Called refinement_server ''review_code''
           [(''app_code'', to_str v2), (''tests'', to_str v3)] (Inr v4),
         Called refinement_server ''refine_code''
           [(''app_code'', to_str v2), (''feedback'', to_str v4)] (Inl e)], w5)
      | (Inr v5, w5) \<Rightarrow>
          (case create_zip_from_strings env (if usable v5 then to_str v5 else to_str v2)
                  (to_str v3) d w5 of
             (z, w6) \<Rightarrow>
               (Inr (z, get_model_usage (usage_file env w6)),
                [Called refinement_server ''generate_plan'' [(''description'', d)] (Inr v1),
         Called codegen_server ''generate_app_code''
           [(''description'', d), (''plan'', to_str v1)] (Inr v2),
         Called testgen_server ''generate_tests''
           [(''app_code'', to_str v2), (''description'', d)] (Inr v3),
         Called refinement_server ''review_code''
           [(''app_code'', to_str v2), (''tests'', to_str v3)] (Inr v4),
         Called refinement_server ''refine_code''
           [(''app_code'', to_str v2), (''feedback'', to_str v4)] (Inr v5),
         Packaged (if usable v5 then to_str v5 else to_str v2) (to_str v3) d], w6)))) \<and>
   length (filter is_refine (fst (snd (run_pipeline_async env d ([], w))))) =
     (if sublist ''OK_TO_USE'' (to_str v4) then 0 else 1)"
proof (cases "sublist ''OK_TO_USE'' (to_str v4)")
  case True
  have eq: "run_pipeline_async env d ([], w) =
     (case create_zip_from_strings env (to_str v2) (to_str v3) d w4 of
        (z, w6) \<Rightarrow>
          (Inr (z, get_model_usage (usage_file env w6)),
           [Called refinement_server ''generate_plan'' [(''description'', d)] (Inr v1),
         Called codegen_server ''generate_app_code''
           [(''description'', d), (''plan'', to_str v1)] (Inr v2),
         Called testgen_server ''generate_tests''
           [(''app_code'', to_str v2), (''description'', d)] (Inr v3),
         Called refinement_server ''review_code''
           [(''app_code'', to_str v2), (''tests'', to_str v3)] (Inr v4),
         Packaged (to_str v2) (to_str v3) d], w6))"
    using c1 c2 c3 c4 True by (rule run_with_marker)
  show ?thesis
    unfolding eq using True by (simp split: prod.splits)
next
  case False
  have eq: "run_pipeline_async env d ([], w) =
     (case call_mcp_tool (launch env) refinement_server ''refine_code''
             [(''app_code'', to_str v2), (''feedback'', to_str v4)] w4 of
        (Inl e, w5) \<Rightarrow>
          (Inl e,
           [Called refinement_server ''generate_plan'' [(''description'', d)] (Inr v1),
         Called codegen_server ''generate_app_code''
           [(''description'', d), (''plan'', to_str v1)] (Inr v2),
         Called testgen_server ''generate_tests''
           [(''app_code'', to_str v2), (''description'', d)] (Inr v3),
         Called refinement_server ''review_code''
           [(''app_code'', to_str v2), (''tests'', to_str v3)] (Inr v4),
         Called refinement_server ''refine_code''
           [(''app_code'', to_str v2), (''feedback'', to_str v4)] (Inl e)], w5)
      | (Inr v5, w5) \<Rightarrow>
          (case create_zip_from_strings env (if usable v5 then to_str v5 else to_str v2)
                  (to_str v3) d w5 of
             (z, w6) \<Rightarrow>
               (Inr (z, get_model_usage (usage_file env w6)),
                [Called refinement_server ''generate_plan'' [(''description'', d)] (Inr v1),
         Called codegen_server ''generate_app_code''
           [(''description'', d), (''plan'', to_str v1)] (Inr v2),
         Called testgen_server ''generate_tests''
           [(''app_code'', to_str v2), (''description'', d)] (Inr v3),
         Called refinement_server ''review_code''
           [(''app_code'', to_str v2), (''tests'', to_str v3)] (Inr v4),
         Called refinement_server ''refine_code''
           [(''app_code'', to_str v2), (''feedback'', to_str v4)] (Inr v5),
         Packaged (if usable v5 then to_str v5 else to_str v2) (to_str v3) d], w6)))"
    using c1 c2 c3 c4 False by (rule run_without_marker)
  show ?thesis
    unfolding eq using False by (simp split: prod.splits sum.splits)
qed

theorem refine_called_iff_no_marker_witness:
  "run_pipeline_async
     (recording_env (scripted (Text ''plan'') (Text ''print(1)'') (Text ''assert True'')
        (Text ''needs work'') (Text ''print(2)'')))
     ''d'' ([], [])
   = (Inr (''generated_app.zip'', JObj []),
      [Called refinement_server ''generate_plan'' [(''description'', ''d'')]
         (Inr (Text ''plan'')),
       Called codegen_server ''generate_app_code''
         [(''description'', ''d''), (''plan'', ''plan'')] (Inr (Text ''print(1)'')),
       Called testgen_server ''generate_tests''
         [(''app_code'', ''print(1)''), (''description'', ''d'')] (Inr (Text ''assert True'')),
       Called refinement_server ''review_code''
         [(''app_code'', ''print(1)''), (''tests'', ''assert True'')] (Inr (Text ''needs work'')),
       Called refinement_server ''refine_code''
         [(''app_code'', ''print(1)''), (''feedback'', ''needs work'')] (Inr (Text ''print(2)'')),
       Packaged ''print(2)'' ''assert True'' ''d''],
      [Called refinement_server ''generate_plan'' [(''description'', ''d'')]
         (Inr (Text ''plan'')),
       Called codegen_server ''generate_app_code''
         [(''description'', ''d''), (''plan'', ''plan'')] (Inr (Text ''print(1)'')),
       Called testgen_server ''generate_tests''
         [(''app_code'', ''print(1)''), (''description'', ''d'')] (Inr (Text ''assert True'')),
       Called refinement_server ''review_code''
         [(''app_code'', ''print(1)''), (''tests'', ''assert True'')] (Inr (Text ''needs work'')),
       Called refinement_server ''refine_code''
         [(''app_code'', ''print(1)''), (''feedback'', ''needs work'')] (Inr (Text ''print(2)'')),
       Packaged ''print(2)'' ''assert True'' ''d'']) \<and>
   length (filter is_refine
      [Called refinement_server ''generate_plan'' [(''description'', ''d'')]
         (Inr (Text ''plan'')),
       Called codegen_server ''generate_app_code''
         [(''description'', ''d''), (''plan'', ''plan'')] (Inr (Text ''print(1)'')),
       Called testgen_server ''generate_tests''
         [(''app_code'', ''print(1)''), (''description'', ''d'')] (Inr (Text ''assert True'')),
       Called refinement_server ''review_code''
         [(''app_code'', ''print(1)''), (''tests'', ''assert True'')] (Inr (Text ''needs work'')),
       Called refinement_server ''refine_code''
         [(''app_code'', ''print(1)''), (''feedback'', ''needs work'')] (Inr (Text ''print(2)'')),
       Packaged ''print(2)'' ''assert True'' ''d'']) = 1"
proof -
  have c1: "call_mcp_tool (launch (recording_env (scripted (Text ''plan'') (Text ''print(1)'') (Text ''assert True'')
        (Text ''needs work'') (Text ''print(2)''))))
      refinement_server ''generate_plan''
      [(''description'', ''d'')]
      []
    = (Inr (Text ''plan''),
       [Called refinement_server ''generate_plan'' [(''description'', ''d'')]
         (Inr (Text ''plan''))])"
    by code_simp
  have c2: "call_mcp_tool (launch (recording_env (scripted (Text ''plan'') (Text ''print(1)'') (Text ''assert True'')
        (Text ''needs work'') (Text ''print(2)''))))
      codegen_server ''generate_app_code''
      [(''description'', ''d''), (''plan'', to_str (Text ''plan''))]
      [Called refinement_server ''generate_plan'' [(''description'', ''d'')]
         (Inr (Text ''plan''))]
    = (Inr (Text ''print(1)''),
       [Called refinement_server ''generate_plan'' [(''description'', ''d'')]
         (Inr (Text ''plan'')),
       Called codegen_server ''generate_app_code''
         [(''description'', ''d''), (''plan'', ''plan'')] (Inr (Text ''print(1)''))])"
    by code_simp
  have c3: "call_mcp_tool (launch (recording_env (scripted (Text ''plan'') (Text ''print(1)'') (Text ''assert True'')
        (Text ''needs work'') (Text ''print(2)''))))
      testgen_server ''generate_tests''
      [(''app_code'', to_str (Text ''print(1)'')), (''description'', ''d'')]
      [Called refinement_server ''generate_plan'' [(''description'', ''d'')]
         (Inr (Text ''plan'')),
       Called codegen_server ''generate_app_code''
         [(''description'', ''d''), (''plan'', ''plan'')] (Inr (Text ''print(1)''))]
    = (Inr (Text ''assert True''),
       [Called refinement_server ''generate_plan'' [(''description'', ''d'')]
         (Inr (Text ''plan'')),
       Called codegen_server ''generate_app_code''
         [(''description'', ''d''), (''plan'', ''plan'')] (Inr (Text ''print(1)'')),
       Called testgen_server ''generate_tests''
         [(''app_code'', ''print(1)''), (''description'', ''d'')] (Inr (Text ''assert True''))])"
    by code_simp
  have c4: "call_mcp_tool (launch (recording_env (scripted (Text ''plan'') (Text ''print(1)'') (Text ''assert True'')
        (Text ''needs work'') (Text ''print(2)''))))
      refinement_server ''review_code''
      [(''app_code'', to_str (Text ''print(1)'')), (''tests'', to_str (Text ''assert True''))]
      [Called refinement_server ''generate_plan'' [(''description'', ''d'')]
         (Inr (Text ''plan'')),
       Called codegen_server ''generate_app_code''
         [(''description'', ''d''), (''plan'', ''plan'')] (Inr (Text ''print(1)'')),
       Called testgen_server ''generate_tests''
         [(''app_code'', ''print(1)''), (''description'', ''d'')] (Inr (Text ''assert True''))]
    = (Inr (Text ''needs work''),
       [Called refinement_server ''generate_plan'' [(''description'', ''d'')]
         (Inr (Text ''plan'')),
       Called codegen_server ''generate_app_code''
         [(''description'', ''d''), (''plan'', ''plan'')] (Inr (Text ''print(1)'')),
       Called testgen_server ''generate_tests''
         [(''app_code'', ''print(1)''), (''description'', ''d'')] (Inr (Text ''assert True'')),
       Called refinement_server ''review_code''
         [(''app_code'', ''print(1)''), (''tests'', ''assert True'')] (Inr (Text ''needs work''))])"
    by code_simp
  have c5: "call_mcp_tool (launch (recording_env (scripted (Text ''plan'') (Text ''print(1)'') (Text ''assert True'')
        (Text ''needs work'') (Text ''print(2)''))))
      refinement_server ''refine_code''
      [(''app_code'', to_str (Text ''print(1)'')), (''feedback'', to_str (Text ''needs work''))]
      [Called refinement_server ''generate_plan'' [(''description'', ''d'')]
         (Inr (Text ''plan'')),
       Called codegen_server ''generate_app_code''
         [(''description'', ''d''), (''plan'', ''plan'')] (Inr (Text ''print(1)'')),
       Called testgen_server ''generate_tests''
         [(''app_code'', ''print(1)''), (''description'', ''d'')] (Inr (Text ''assert True'')),
       Called refinement_server ''review_code''
         [(''app_code'', ''print(1)''), (''tests'', ''assert True'')] (Inr (Text ''needs work''))]
    = (Inr (Text ''print(2)''),
       [Called refinement_server ''generate_plan'' [(''description'', ''d'')]
         (Inr (Text ''plan'')),
       Called codegen_server ''generate_app_code''
         [(''description'', ''d''), (''plan'', ''plan'')] (Inr (Text ''print(1)'')),
       Called testgen_server ''generate_tests''
         [(''app_code'', ''print(1)''), (''description'', ''d'')] (Inr (Text ''assert True'')),
       Called refinement_server ''review_code''
         [(''app_code'', ''print(1)''), (''tests'', ''assert True'')] (Inr (Text ''needs work'')),
       Called refinement_server ''refine_code''
         [(''app_code'', ''print(1)''), (''feedback'', ''needs work'')] (Inr (Text ''print(2)''))])"
    by code_simp
  have nm: "\<not> sublist ''OK_TO_USE'' (to_str (Text ''needs work''))"
    by code_simp
  have zf: "create_zip_from_strings (recording_env (scripted (Text ''plan'') (Text ''print(1)'') (Text ''assert True'')
        (Text ''needs work'') (Text ''print(2)'')))
      ''print(2)'' ''assert True'' ''d''
      [Called refinement_server ''generate_plan'' [(''description'', ''d'')]
         (Inr (Text ''plan'')),
       Called codegen_server ''generate_app_code''
         [(''description'', ''d''), (''plan'', ''plan'')] (Inr (Text ''print(1)'')),
       Called testgen_server ''generate_tests''
         [(''app_code'', ''print(1)''), (''description'', ''d'')] (Inr (Text ''assert True'')),
       Called refinement_server ''review_code''
         [(''app_code'', ''print(1)''), (''tests'', ''assert True'')] (Inr (Text ''needs work'')),
       Called refinement_server ''refine_code''
         [(''app_code'', ''print(1)''), (''feedback'', ''needs work'')] (Inr (Text ''print(2)''))]
    = (''generated_app.zip'',
       [Called refinement_server ''generate_plan'' [(''description'', ''d'')]
         (Inr (Text ''plan'')),
       Called codegen_server ''generate_app_code''
         [(''description'', ''d''), (''plan'', ''plan'')] (Inr (Text ''print(1)'')),
       Called testgen_server ''generate_tests''
         [(''app_code'', ''print(1)''), (''description'', ''d'')] (Inr (Text ''assert True'')),
       Called refinement_server ''review_code''
         [(''app_code'', ''print(1)''), (''tests'', ''assert True'')] (Inr (Text ''needs work'')),
       Called refinement_server ''refine_code''
         [(''app_code'', ''print(1)''), (''feedback'', ''needs work'')] (Inr (Text ''print(2)'')),
       Packaged ''print(2)'' ''assert True'' ''d''])"
    by (simp add: recording_env_def)
  have uf: "get_model_usage (usage_file (recording_env (scripted (Text ''plan'') (Text ''print(1)'') (Text ''assert True'')
        (Text ''needs work'') (Text ''print(2)''))) x) = JObj []" for x
    by (simp add: recording_env_def get_model_usage_def load_usage_def exists_def)
  have us: "usable (Text ''print(2)'')"
    by code_simp
  have run: "run_pipeline_async
     (recording_env (scripted (Text ''plan'') (Text ''print(1)'') (Text ''assert True'')
        (Text ''needs work'') (Text ''print(2)'')))
     ''d'' ([], [])
   = (Inr (''generated_app.zip'', JObj []),
      [Called refinement_server ''generate_plan'' [(''description'', ''d'')]
         (Inr (Text ''plan'')),
       Called codegen_server ''generate_app_code''
         [(''description'', ''d''), (''plan'', ''plan'')] (Inr (Text ''print(1)'')),
       Called testgen_server ''generate_tests''
         [(''app_code'', ''print(1)''), (''description'', ''d'')] (Inr (Text ''assert True'')),
       Called refinement_server ''review_code''
         [(''app_code'', ''print(1)''), (''tests'', ''assert True'')] (Inr (Text ''needs work'')),
       Called refinement_server ''refine_code''
         [(''app_code'', ''print(1)''), (''feedback'', ''needs work'')] (Inr (Text ''print(2)'')),
       Packaged ''print(2)'' ''assert True'' ''d''],
      [Called refinement_server ''generate_plan'' [(''description'', ''d'')]
         (Inr (Text ''plan'')),
       Called codegen_server ''generate_app_code''
         [(''description'', ''d''), (''plan'', ''plan'')] (Inr (Text ''print(1)'')),
       Called testgen_server ''generate_tests''
         [(''app_code'', ''print(1)''), (''description'', ''d'')] (Inr (Text ''assert True'')),
       Called refinement_server ''review_code''
         [(''app_code'', ''print(1)''), (''tests'', ''assert True'')] (Inr (Text ''needs work'')),
       Called refinement_server ''refine_code''
         [(''app_code'', ''print(1)''), (''feedback'', ''needs work'')] (Inr (Text ''print(2)'')),
       Packaged ''print(2)'' ''assert True'' ''d''])"
    using refine_called_iff_no_marker [OF c1 c2 c3 c4, THEN conjunct1] nm
    unfolding c5 by (simp add: to_str_def us zf uf)
  have count: "length (filter is_refine
      [Called refinement_server ''generate_plan'' [(''description'', ''d'')]
         (Inr (Text ''plan'')),
       Called codegen_server ''generate_app_code''
         [(''description'', ''d''), (''plan'', ''plan'')] (Inr (Text ''print(1)'')),
       Called testgen_server ''generate_tests''
         [(''app_code'', ''print(1)''), (''description'', ''d'')] (Inr (Text ''assert True'')),
       Called refinement_server ''review_code''
         [(''app_code'', ''print(1)''), (''tests'', ''assert True'')] (Inr (Text ''needs work'')),
       Called refinement_server ''refine_code''
         [(''app_code'', ''print(1)''), (''feedback'', ''needs work'')] (Inr (Text ''print(2)'')),
       Packaged ''print(2)'' ''assert True'' ''d'']) = 1"
    by simp
  show ?thesis
    using run count by (rule conjI)
qed

text \<open>
  C3. Let the four calls before return results, let the marker be absent from the feedback
  text, and let the refine call return a text \<open>r\<close>. Then the run raises no error: it returns
  the bundle that the packager makes, on the world the refine call left, from the tests, the
  description and an \<open>app_code\<close> that is the text of the code-generation result (the value
  from before the refinement) when \<open>r\<close> is empty or all whitespace, and \<open>r\<close> otherwise.
\<close>

theorem blank_refinement_rejected:
  assumes c1: "call_mcp_tool (launch env) refinement_server ''generate_plan''
                [(''description'', d)] w = (Inr v1, w1)"
    and c2: "call_mcp_tool (launch env) codegen_server ''generate_app_code''
                [(''description'', d), (''plan'', to_str v1)] w1 = (Inr v2, w2)"
    and c3: "call_mcp_tool (launch env) testgen_server ''generate_tests''
                [(''app_code'', to_str v2), (''description'', d)] w2 = (Inr v3, w3)"
    and c4: "call_mcp_tool (launch env) refinement_server ''review_code''
                [(''app_code'', to_str v2), (''tests'', to_str v3)] w3 = (Inr v4, w4)"
    and no_marker: "\<not> sublist ''OK_TO_USE'' (to_str v4)"
    and c5: "call_mcp_tool (launch env) refinement_server ''refine_code''
                [(''app_code'', to_str v2), (''feedback'', to_str v4)] w4 = (Inr (Text r), w5)"
  shows "\<exists>z w6.
     create_zip_from_strings env (if list_all isspace r then to_str v2 else r) (to_str v3) d w5
       = (z, w6) \<and>
     run_pipeline_async env d ([], w) =
       (Inr (z, get_model_usage (usage_file env w6)),
        [Called refinement_server ''generate_plan'' [(''description'', d)] (Inr v1),
         Called codegen_server ''generate_app_code''
           [(''description'', d), (''plan'', to_str v1)] (Inr v2),
         Called testgen_server ''generate_tests''
           [(''app_code'', to_str v2), (''description'', d)] (Inr v3),
         Called refinement_server ''review_code''
           [(''app_code'', to_str v2), (''tests'', to_str v3)] (Inr v4),
         Called refinement_server ''refine_code''
           [(''app_code'', to_str v2), (''feedback'', to_str v4)] (Inr (Text r)),
         Packaged (if list_all isspace r then to_str v2 else r) (to_str v3) d], w6)"
proof -
  obtain z w6 where
    z: "create_zip_from_strings env (if list_all isspace r then to_str v2 else r) (to_str v3) d w5 = (z, w6)"
    by (cases "create_zip_from_strings env (if list_all isspace r then to_str v2 else r) (to_str v3) d w5")
  have code: "(if usable (Text r) then to_str (Text r) else to_str v2) = (if list_all isspace r then to_str v2 else r)"
    by (simp add: accepted_code)
  have "run_pipeline_async env d ([], w) =
       (Inr (z, get_model_usage (usage_file env w6)),
        [Called refinement_server ''generate_plan'' [(''description'', d)] (Inr v1),
         Called codegen_server ''generate_app_code''
           [(''description'', d), (''plan'', to_str v1)] (Inr v2),
         Called testgen_server ''generate_tests''
           [(''app_code'', to_str v2), (''description'', d)] (Inr v3),
         Called refinement_server ''review_code''
           [(''app_code'', to_str v2), (''tests'', to_str v3)] (Inr v4),
         Called refinement_server ''refine_code''
           [(''app_code'', to_str v2), (''feedback'', to_str v4)] (Inr (Text r)),
         Packaged (if list_all isspace r then to_str v2 else r) (to_str v3) d], w6)"
    unfolding run_without_marker [OF c1 c2 c3 c4 no_marker] c5
    by (simp only: prod.case sum.case code z)
  with z show ?thesis
    by (intro exI conjI)
qed

theorem blank_refinement_rejected_witness:
  "run_pipeline_async
     (recording_env (scripted (Text ''plan'') (Text ''print(1)'') (Text ''assert True'')
        (Text ''needs work'') (Text ''  '')))
     ''d'' ([], [])
   = (Inr (''generated_app.zip'', JObj []),
      [Called refinement_server ''generate_plan'' [(''description'', ''d'')]
         (Inr (Text ''plan'')),
       Called codegen_server ''generate_app_code''
         [(''description'', ''d''), (''plan'', ''plan'')] (Inr (Text ''print(1)'')),
       Called testgen_server ''generate_tests''
         [(''app_code'', ''print(1)''), (''description'', ''d'')] (Inr (Text ''assert True'')),
       Called refinement_server ''review_code''
         [(''app_code'', ''print(1)''), (''tests'', ''assert True'')] (Inr (Text ''needs work'')),
       Called refinement_server ''refine_code''
         [(''app_code'', ''print(1)''), (''feedback'', ''needs work'')] (Inr (Text ''  '')),
       Packaged ''print(1)'' ''assert True'' ''d''],
      [Called refinement_server ''generate_plan'' [(''description'', ''d'')]
         (Inr (Text ''plan'')),
       Called codegen_server ''generate_app_code''
         [(''description'', ''d''), (''plan'', ''plan'')] (Inr (Text ''print(1)'')),
       Called testgen_server ''generate_tests''
         [(''app_code'', ''print(1)''), (''description'', ''d'')] (Inr (Text ''assert True'')),
       Called refinement_server ''review_code''
         [(''app_code'', ''print(1)''), (''tests'', ''assert True'')] (Inr (Text ''needs work'')),
       Called refinement_server ''refine_code''
         [(''app_code'', ''print(1)''), (''feedback'', ''needs work'')] (Inr (Text ''  '')),
       Packaged ''print(1)'' ''assert True'' ''d'']) \<and>
   length (filter is_refine
      [Called refinement_server ''generate_plan'' [(''description'', ''d'')]
         (Inr (Text ''plan'')),
       Called codegen_server ''generate_app_code''
         [(''description'', ''d''), (''plan'', ''plan'')] (Inr (Text ''print(1)'')),
       Called testgen_server ''generate_tests''
         [(''app_code'', ''print(1)''), (''description'', ''d'')] (Inr (Text ''assert True'')),
       Called refinement_server ''review_code''
         [(''app_code'', ''print(1)''), (''tests'', ''assert True'')] (Inr (Text ''needs work'')),
       Called refinement_server ''refine_code''
         [(''app_code'', ''print(1)''), (''feedback'', ''needs work'')] (Inr (Text ''  '')),
       Packaged ''print(1)'' ''assert True'' ''d'']) = 1"
proof -
  have c1: "call_mcp_tool (launch (recording_env (scripted (Text ''plan'') (Text ''print(1)'') (Text ''assert True'')
        (Text ''needs work'') (Text ''  ''))))
      refinement_server ''generate_plan''
      [(''description'', ''d'')]
      []
    = (Inr (Text ''plan''),
       [Called refinement_server ''generate_plan'' [(''description'', ''d'')]
         (Inr (Text ''plan''))])"
    by code_simp
  have c2: "call_mcp_tool (launch (recording_env (scripted (Text ''plan'') (Text ''print(1)'') (Text ''assert True'')
        (Text ''needs work'') (Text ''  ''))))
      codegen_server ''generate_app_code''
      [(''description'', ''d''), (''plan'', to_str (Text ''plan''))]
      [Called refinement_server ''generate_plan'' [(''description'', ''d'')]
         (Inr (Text ''plan''))]
    = (Inr (Text ''print(1)''),
       [Called refinement_server ''generate_plan'' [(''description'', ''d'')]
         (Inr (Text ''plan'')),
       Called codegen_server ''generate_app_code''
         [(''description'', ''d''), (''plan'', ''plan'')] (Inr (Text ''print(1)''))])"
    by code_simp
  have c3: "call_mcp_tool (launch (recording_env (scripted (Text ''plan'') (Text ''print(1)'') (Text ''assert True'')
        (Text ''needs work'') (Text ''  ''))))
      testgen_server ''generate_tests''
      [(''app_code'', to_str (Text ''print(1)'')), (''description'', ''d'')]
      [Called refinement_server ''generate_plan'' [(''description'', ''d'')]
         (Inr (Text ''plan'')),
       Called codegen_server ''generate_app_code''
         [(''description'', ''d''), (''plan'', ''plan'')] (Inr (Text ''print(1)''))]
    = (Inr (Text ''assert True''),
       [Called refinement_server ''generate_plan'' [(''description'', ''d'')]
         (Inr (Text ''plan'')),
       Called codegen_server ''generate_app_code''
         [(''description'', ''d''), (''plan'', ''plan'')] (Inr (Text ''print(1)'')),
       Called testgen_server ''generate_tests''
         [(''app_code'', ''print(1)''), (''description'', ''d'')] (Inr (Text ''assert True''))])"
    by code_simp
  have c4: "call_mcp_tool (launch (recording_env (scripted (Text ''plan'') (Text ''print(1)'') (Text ''assert True'')
        (Text ''needs work'') (Text ''  ''))))
      refinement_server ''review_code''
      [(''app_code'', to_str (Text ''print(1)'')), (''tests'', to_str (Text ''assert True''))]
      [Called refinement_server ''generate_plan'' [(''description'', ''d'')]
         (Inr (Text ''plan'')),
       Called codegen_server ''generate_app_code''
         [(''description'', ''d''), (''plan'', ''plan'')] (Inr (Text ''print(1)'')),
       Called testgen_server ''generate_tests''
         [(''app_code'', ''print(1)''), (''description'', ''d'')] (Inr (Text ''assert True''))]
    = (Inr (Text ''needs work''),
       [Called refinement_server ''generate_plan'' [(''description'', ''d'')]
         (Inr (Text ''plan'')),
       Called codegen_server ''generate_app_code''
         [(''description'', ''d''), (''plan'', ''plan'')] (Inr (Text ''print(1)'')),
       Called testgen_server ''generate_tests''
         [(''app_code'', ''print(1)''), (''description'', ''d'')] (Inr (Text ''assert True'')),
       Called refinement_server ''review_code''
         [(''app_code'', ''print(1)''), (''tests'', ''assert True'')] (Inr (Text ''needs work''))])"
    by code_simp
  have c5: "call_mcp_tool (launch (recording_env (scripted (Text ''plan'') (Text ''print(1)'') (Text ''assert True'')
        (Text ''needs work'') (Text ''  ''))))
      refinement_server ''refine_code''
      [(''app_code'', to_str (Text ''print(1)'')), (''feedback'', to_str (Text ''needs work''))]
      [Called refinement_server ''generate_plan'' [(''description'', ''d'')]
         (Inr (Text ''plan'')),
       Called codegen_server ''generate_app_code''
         [(''description'', ''d''), (''plan'', ''plan'')] (Inr (Text ''print(1)'')),
       Called testgen_server ''generate_tests''
         [(''app_code'', ''print(1)''), (''description'', ''d'')] (Inr (Text ''assert True'')),
       Called refinement_server ''review_code''
         [(''app_code'', ''print(1)''), (''tests'', ''assert True'')] (Inr (Text ''needs work''))]
    = (Inr (Text ''  ''),
       [Called refinement_server ''generate_plan'' [(''description'', ''d'')]
         (Inr (Text ''plan'')),
       Called codegen_server ''generate_app_code''
         [(''description'', ''d''), (''plan'', ''plan'')] (Inr (Text ''print(1)'')),
       Called testgen_server ''generate_tests''
         [(''app_code'', ''print(1)''), (''description'', ''d'')] (Inr (Text ''assert True'')),
       Called refinement_server ''review_code''
         [(''app_code'', ''print(1)''), (''tests'', ''assert True'')] (Inr (Text ''needs work'')),
       Called refinement_server ''refine_code''
         [(''app_code'', ''print(1)''), (''feedback'', ''needs work'')] (Inr (Text ''  ''))])"
    by code_simp
  have nm: "\<not> sublist ''OK_TO_USE'' (to_str (Text ''needs work''))"
    by code_simp
  have zf: "create_zip_from_strings (recording_env (scripted (Text ''plan'') (Text ''print(1)'') (Text ''assert True'')
        (Text ''needs work'') (Text ''  '')))
      ''print(1)'' ''assert True'' ''d''
      [Called refinement_server ''generate_plan'' [(''description'', ''d'')]
         (Inr (Text ''plan'')),
       Called codegen_server ''generate_app_code''
         [(''description'', ''d''), (''plan'', ''plan'')] (Inr (Text ''print(1)'')),
       Called testgen_server ''generate_tests''
         [(''app_code'', ''print(1)''), (''description'', ''d'')] (Inr (Text ''assert True'')),
       Called refinement_server ''review_code''
         [(''app_code'', ''print(1)''), (''tests'', ''assert True'')] (Inr (Text ''needs work'')),
       Called refinement_server ''refine_code''
         [(''app_code'', ''print(1)''), (''feedback'', ''needs work'')] (Inr (Text ''  ''))]
    = (''generated_app.zip'',
       [Called refinement_server ''generate_plan'' [(''description'', ''d'')]
         (Inr (Text ''plan'')),
       Called codegen_server ''generate_app_code''
         [(''description'', ''d''), (''plan'', ''plan'')] (Inr (Text ''print(1)'')),
       Called testgen_server ''generate_tests''
         [(''app_code'', ''print(1)''), (''description'', ''d'')] (Inr (Text ''assert True'')),
       Called refinement_server ''review_code''
         [(''app_code'', ''print(1)''), (''tests'', ''assert True'')] (Inr (Text ''needs work'')),
       Called refinement_server ''refine_code''
         [(''app_code'', ''print(1)''), (''feedback'', ''needs work'')] (Inr (Text ''  '')),
       Packaged ''print(1)'' ''assert True'' ''d''])"
    by (simp add: recording_env_def)
  have uf: "get_model_usage (usage_file (recording_env (scripted (Text ''plan'') (Text ''print(1)'') (Text ''assert True'')
        (Text ''needs work'') (Text ''  ''))) x) = JObj []" for x
    by (simp add: recording_env_def get_model_usage_def load_usage_def exists_def)
  have blank: "list_all isspace ''  ''"
    by code_simp
  obtain z w6 where
    z: "create_zip_from_strings (recording_env (scripted (Text ''plan'') (Text ''print(1)'') (Text ''assert True'')
        (Text ''needs work'') (Text ''  '')))
      (if list_all isspace ''  '' then to_str (Text ''print(1)'') else ''  '')
      (to_str (Text ''assert True'')) ''d''
      [Called refinement_server ''generate_plan'' [(''description'', ''d'')]
         (Inr (Text ''plan'')),
       Called codegen_server ''generate_app_code''
         [(''description'', ''d''), (''plan'', ''plan'')] (Inr (Text ''print(1)'')),
       Called testgen_server ''generate_tests''
         [(''app_code'', ''print(1)''), (''description'', ''d'')] (Inr (Text ''assert True'')),
       Called refinement_server ''review_code''
         [(''app_code'', ''print(1)''), (''tests'', ''assert True'')] (Inr (Text ''needs work'')),
       Called refinement_server ''refine_code''
         [(''app_code'', ''print(1)''), (''feedback'', ''needs work'')] (Inr (Text ''  ''))] = (z, w6)"
    and r: "run_pipeline_async
     (recording_env (scripted (Text ''plan'') (Text ''print(1)'') (Text ''assert True'')
        (Text ''needs work'') (Text ''  '')))
     ''d'' ([], [])
   = (Inr (z, get_model_usage (usage_file (recording_env (scripted (Text ''plan'') (Text ''print(1)'') (Text ''assert True'')
        (Text ''needs work'') (Text ''  ''))) w6)),
      [Called refinement_server ''generate_plan'' [(''description'', ''d'')]
         (Inr (Text ''plan'')),
       Called codegen_server ''generate_app_code''
         [(''description'', ''d''), (''plan'', to_str (Text ''plan''))] (Inr (Text ''print(1)'')),
       Called testgen_server ''generate_tests''
         [(''app_code'', to_str (Text ''print(1)'')), (''description'', ''d'')] (Inr (Text ''assert True'')),
       Called refinement_server ''review_code''
         [(''app_code'', to_str (Text ''print(1)'')), (''tests'', to_str (Text ''assert True''))] (Inr (Text ''needs work'')),
       Called refinement_server ''refine_code''
         [(''app_code'', to_str (Text ''print(1)'')), (''feedback'', to_str (Text ''needs work''))]
         (Inr (Text ''  '')),
       Packaged (if list_all isspace ''  '' then to_str (Text ''print(1)'') else ''  '')
         (to_str (Text ''assert True'')) ''d''], w6)"
    using blank_refinement_rejected [OF c1 c2 c3 c4 nm c5] by (elim exE conjE)
  have "z = ''generated_app.zip'' \<and> w6 =
      [Called refinement_server ''generate_plan'' [(''description'', ''d'')]
         (Inr (Text ''plan'')),
       Called codegen_server ''generate_app_code''
         [(''description'', ''d''), (''plan'', ''plan'')] (Inr (Text ''print(1)'')),
       Called testgen_server ''generate_tests''
         [(''app_code'', ''print(1)''), (''description'', ''d'')] (Inr (Text ''assert True'')),
       Called refinement_server ''review_code''
         [(''app_code'', ''print(1)''), (''tests'', ''assert True'')] (Inr (Text ''needs work'')),
       Called refinement_server ''refine_code''
         [(''app_code'', ''print(1)''), (''feedback'', ''needs work'')] (Inr (Text ''  '')),
       Packaged ''print(1)'' ''assert True'' ''d'']"
    using z zf blank by (simp add: to_str_def)
  then have run: "run_pipeline_async
     (recording_env (scripted (Text ''plan'') (Text ''print(1)'') (Text ''assert True'')
        (Text ''needs work'') (Text ''  '')))
     ''d'' ([], [])
   = (Inr (''generated_app.zip'', JObj []),
      [Called refinement_server ''generate_plan'' [(''description'', ''d'')]
         (Inr (Text ''plan'')),
       Called codegen_server ''generate_app_code''
         [(''description'', ''d''), (''plan'', ''plan'')] (Inr (Text ''print(1)'')),
       Called testgen_server ''generate_tests''
         [(''app_code'', ''print(1)''), (''description'', ''d'')] (Inr (Text ''assert True'')),
       Called refinement_server ''review_code''
         [(''app_code'', ''print(1)''), (''tests'', ''assert True'')] (Inr (Text ''needs work'')),
       Called refinement_server ''refine_code''
         [(''app_code'', ''print(1)''), (''feedback'', ''needs work'')] (Inr (Text ''  '')),
       Packaged ''print(1)'' ''assert True'' ''d''],
      [Called refinement_server ''generate_plan'' [(''description'', ''d'')]
         (Inr (Text ''plan'')),
       Called codegen_server ''generate_app_code''
         [(''description'', ''d''), (''plan'', ''plan'')] (Inr (Text ''print(1)'')),
       Called testgen_server ''generate_tests''
         [(''app_code'', ''print(1)''), (''description'', ''d'')] (Inr (Text ''assert True'')),
       Called refinement_server ''review_code''
         [(''app_code'', ''print(1)''), (''tests'', ''assert True'')] (Inr (Text ''needs work'')),
       Called refinement_server ''refine_code''
         [(''app_code'', ''print(1)''), (''feedback'', ''needs work'')] (Inr (Text ''  '')),
       Packaged ''print(1)'' ''assert True'' ''d''])"
    using r blank by (simp add: to_str_def uf)
  have count: "length (filter is_refine
      [Called refinement_server ''generate_plan'' [(''description'', ''d'')]
         (Inr (Text ''plan'')),
       Called codegen_server ''generate_app_code''
         [(''description'', ''d''), (''plan'', ''plan'')] (Inr (Text ''print(1)'')),
       Called testgen_server ''generate_tests''
         [(''app_code'', ''print(1)''), (''description'', ''d'')] (Inr (Text ''assert True'')),
       Called refinement_server ''review_code''
         [(''app_code'', ''print(1)''), (''tests'', ''assert True'')] (Inr (Text ''needs work'')),
       Called refinement_server ''refine_code''
         [(''app_code'', ''print(1)''), (''feedback'', ''needs work'')] (Inr (Text ''  '')),
       Packaged ''print(1)'' ''assert True'' ''d'']) = 1"
    by simp
  show ?thesis
    using run count by (rule conjI)
qed

text \<open>
  C4. The front-end handler rejects a description that is empty or all whitespace with its
  validation error, and nothing else happens: no tool server is called, nothing is packaged,
  the world is unchanged.
\<close>

theorem blank_description_rejected:
  assumes "list_all isspace d"
  shows "generate_app_and_tests env d s = (Inl ValidationError, s)"
  using assms by (simp add: generate_app_and_tests_def strip_blank_iff)

theorem blank_description_rejected_witness:
  "list_all isspace [CHR 0x20, CHR 0x09, CHR 0x0A] \<and>
   generate_app_and_tests
     (stub_env (canned (Text ''plan'') (Text ''print(1)'') (Text ''assert True'')
        (Text ''OK_TO_USE'') []))
     [CHR 0x20, CHR 0x09, CHR 0x0A] ([], ()) = (Inl ValidationError, ([], ()))"
proof -
  have blank: "list_all isspace [CHR 0x20, CHR 0x09, CHR 0x0A]" by code_simp
  show ?thesis
    using blank blank_description_rejected [OF blank] by simp
qed

text \<open>
  C8. A tool name that is not in the discovered catalog makes \<open>_call_mcp_tool\<close> fail with
  the tool-not-found error that carries the names of the catalog; and a run in which a call
  failed so ends with that error and never calls the packager.
\<close>

theorem tool_not_found_aborts:
  "(launch env p w = (Inr tools, w1) \<and> t \<notin> set (map name tools) \<longrightarrow>
      call_mcp_tool (launch env) p t a w = (Inl (ToolNotFound t p (map name tools)), w1)) \<and>
   (run_pipeline_async env d ([], w0) = (res, tr, w') \<and>
    Called p' t' a' (Inl (ToolNotFound t' p' names)) \<in> set tr \<longrightarrow>
      res = Inl (ToolNotFound t' p' names) \<and> filter is_packaged tr = [])"
  using not_found_raised [of env p w tools w1 t a]
    failed_call_aborts [of env d w0 res tr w' p' t' a' "ToolNotFound t' p' names"]
  by blast

theorem tool_not_found_aborts_witness:
  "call_mcp_tool
     (launch (stub_env (canned (Text ''plan'') (Text ''print(1)'') (Text ''assert True'')
        (Text ''needs work'') [])))
     refinement_server ''refine_code'' [(''app_code'', ''print(1)''), (''feedback'', ''needs work'')] ()
   = (Inl (ToolNotFound ''refine_code'' refinement_server [''generate_plan'', ''review_code'']), ()) \<and>
   run_pipeline_async
     (stub_env (canned (Text ''plan'') (Text ''print(1)'') (Text ''assert True'')
        (Text ''needs work'') []))
     ''d'' ([], ())
   = (Inl (ToolNotFound ''refine_code'' refinement_server [''generate_plan'', ''review_code'']),
      [Called refinement_server ''generate_plan'' [(''description'', ''d'')] (Inr (Text ''plan'')),
       Called codegen_server ''generate_app_code'' [(''description'', ''d''), (''plan'', ''plan'')]
         (Inr (Text ''print(1)'')),
       Called testgen_server ''generate_tests''
         [(''app_code'', ''print(1)''), (''description'', ''d'')] (Inr (Text ''assert True'')),
       Called refinement_server ''review_code''
         [(''app_code'', ''print(1)''), (''tests'', ''assert True'')] (Inr (Text ''needs work'')),
       Called refinement_server ''refine_code''
         [(''app_code'', ''print(1)''), (''feedback'', ''needs work'')]
         (Inl (ToolNotFound ''refine_code'' refinement_server
                 [''generate_plan'', ''review_code'']))], ()) \<and>
   filter is_packaged
      [Called refinement_server ''generate_plan'' [(''description'', ''d'')] (Inr (Text ''plan'')),
       Called codegen_server ''generate_app_code'' [(''description'', ''d''), (''plan'', ''plan'')]
         (Inr (Text ''print(1)'')),
       Called testgen_server ''generate_tests''
         [(''app_code'', ''print(1)''), (''description'', ''d'')] (Inr (Text ''assert True'')),
       Called refinement_server ''review_code''
         [(''app_code'', ''print(1)''), (''tests'', ''assert True'')] (Inr (Text ''needs work'')),
       Called refinement_server ''refine_code''
         [(''app_code'', ''print(1)''), (''feedback'', ''needs work'')]
         (Inl (ToolNotFound ''refine_code'' refinement_server
                 [''generate_plan'', ''review_code'']))] = []"
  (is "?call = ?cres \<and> ?run = (?res, ?tr, ?w) \<and> _")
proof -
  have l: "launch (stub_env (canned (Text ''plan'') (Text ''print(1)'') (Text ''assert True'')
        (Text ''needs work'') [])) refinement_server ()
      = (Inr [stub_tool ''generate_plan'' (Inr (Text ''plan'')),
              stub_tool ''review_code'' (Inr (Text ''needs work''))], ())"
    by (simp add: stub_env_def canned_def)
  have absent: "''refine_code'' \<notin> set (map name
      [stub_tool ''generate_plan'' (Inr (Text ''plan'')),
       stub_tool ''review_code'' (Inr (Text ''needs work''))])"
    by (simp add: stub_tool_def)
  have run: "?run = (?res, ?tr, ?w)" by code_simp
  have mem: "Called refinement_server ''refine_code''
         [(''app_code'', ''print(1)''), (''feedback'', ''needs work'')]
         (Inl (ToolNotFound ''refine_code'' refinement_server
                 [''generate_plan'', ''review_code''])) \<in> set ?tr" by simp
  have both: "?call = (Inl (ToolNotFound ''refine_code'' refinement_server (map name
          [stub_tool ''generate_plan'' (Inr (Text ''plan'')),
           stub_tool ''review_code'' (Inr (Text ''needs work''))])), ()) \<and>
        filter is_packaged ?tr = []"
    using l absent run mem
      tool_not_found_aborts [of _ refinement_server "()" _ "()" "''refine_code''" _ "''d''" "()"
        ?res ?tr "()" refinement_server "''refine_code''" _ "[''generate_plan'', ''review_code'']"]
    by blast
  then show ?thesis
    using run by (simp add: stub_tool_def)
qed

text \<open>
  C9. Whatever the packager is called with, its description is the input description and its
  \<open>tests_code\<close> is the text of the test-generation result, which was computed from the text of
  the code-generation result, that is from the \<open>app_code\<close> of before any refinement.
\<close>

theorem refine_leaves_tests_and_description:
  assumes "run_pipeline_async env d ([], w) = (res, tr, w')"
    and "Packaged a t d' \<in> set tr"
  shows "d' = d \<and> (\<exists>ga app_v tests_v.
           Called codegen_server ''generate_app_code'' ga (Inr app_v) \<in> set tr \<and>
           Called testgen_server ''generate_tests''
             [(''app_code'', to_str app_v), (''description'', d)] (Inr tests_v) \<in> set tr \<and>
           t = to_str tests_v)"
  using assms unfolding run_pipeline_async_def Let_def
  by (auto split: prod.splits sum.splits if_splits dest!: traced_callE simp: servers)

theorem refine_leaves_tests_and_description_witness:
  "run_pipeline_async
     (stub_env (canned (Text ''plan'') (Text ''print(1)'') (Text ''assert one()'')
        (Text ''rename it'') [stub_tool ''refine_code'' (Inr (Text ''print(2)''))]))
     ''d'' ([], ())
   = (Inr (''generated_app.zip'', JObj []),
      [Called refinement_server ''generate_plan'' [(''description'', ''d'')] (Inr (Text ''plan'')),
       Called codegen_server ''generate_app_code'' [(''description'', ''d''), (''plan'', ''plan'')]
         (Inr (Text ''print(1)'')),
       Called testgen_server ''generate_tests''
         [(''app_code'', ''print(1)''), (''description'', ''d'')] (Inr (Text ''assert one()'')),
       Called refinement_server ''review_code''
         [(''app_code'', ''print(1)''), (''tests'', ''assert one()'')] (Inr (Text ''rename it'')),
       Called refinement_server ''refine_code''
         [(''app_code'', ''print(1)''), (''feedback'', ''rename it'')] (Inr (Text ''print(2)'')),
       Packaged ''print(2)'' ''assert one()'' ''d''], ()) \<and>
   (\<exists>ga app_v tests_v.
      Called codegen_server ''generate_app_code'' ga (Inr app_v) \<in> set
        [Called refinement_server ''generate_plan'' [(''description'', ''d'')] (Inr (Text ''plan'')),
         Called codegen_server ''generate_app_code'' [(''description'', ''d''), (''plan'', ''plan'')]
           (Inr (Text ''print(1)'')),
         Called testgen_server ''generate_tests''
           [(''app_code'', ''print(1)''), (''description'', ''d'')] (Inr (Text ''assert one()'')),
         Called refinement_server ''review_code''
           [(''app_code'', ''print(1)''), (''tests'', ''assert one()'')] (Inr (Text ''rename it'')),
         Called refinement_server ''refine_code''
           [(''app_code'', ''print(1)''), (''feedback'', ''rename it'')] (Inr (Text ''print(2)'')),
         Packaged ''print(2)'' ''assert one()'' ''d''] \<and>
      ''assert one()'' = to_str tests_v)"
  (is "?run = (?res, ?tr, ?w) \<and> _")
proof -
  have run: "?run = (?res, ?tr, ?w)" by code_simp
  have mem: "Packaged ''print(2)'' ''assert one()'' ''d'' \<in> set ?tr" by simp
  show ?thesis
    using run refine_leaves_tests_and_description [OF run mem] by blast
qed

text \<open>
  C5. The results of the plan, code-generation, test-generation and review calls are turned
  into text by \<open>str()\<close> when they are not text, and that text is what the next stage works
  on: when each call is made with the text of the results before it (the plan to code
  generation, the code to test generation and review, the tests to review, the feedback to
  the marker test and to the refine call), the run is the chain of exactly these calls and
  packages the text of the tests. The result of the refine call is treated otherwise: it
  replaces \<open>app_code\<close> only when it is a text that is not blank; a result that is not a text
  is not converted, and the text of the code-generation result goes to the packager.
\<close>

theorem results_passed_downstream:
  assumes c1: "call_mcp_tool (launch env) refinement_server ''generate_plan''
                [(''description'', d)] w = (Inr v1, w1)"
    and c2: "call_mcp_tool (launch env) codegen_server ''generate_app_code''
                [(''description'', d), (''plan'', to_str v1)] w1 = (Inr v2, w2)"
    and c3: "call_mcp_tool (launch env) testgen_server ''generate_tests''
                [(''app_code'', to_str v2), (''description'', d)] w2 = (Inr v3, w3)"
    and c4: "call_mcp_tool (launch env) refinement_server ''review_code''
                [(''app_code'', to_str v2), (''tests'', to_str v3)] w3 = (Inr v4, w4)"
    and c5: "call_mcp_tool (launch env) refinement_server ''refine_code''
                [(''app_code'', to_str v2), (''feedback'', to_str v4)] w4 = (Inr v5, w5)"
  shows "if sublist ''OK_TO_USE'' (to_str v4)
     then (\<exists>z w6.
        create_zip_from_strings env (to_str v2) (to_str v3) d w4 = (z, w6) \<and>
        run_pipeline_async env d ([], w) =
          (Inr (z, get_model_usage (usage_file env w6)),
           [Called refinement_server ''generate_plan'' [(''description'', d)] (Inr v1),
         Called codegen_server ''generate_app_code''
           [(''description'', d), (''plan'', to_str v1)] (Inr v2),
         Called testgen_server ''generate_tests''
           [(''app_code'', to_str v2), (''description'', d)] (Inr v3),
         Called refinement_server ''review_code''
           [(''app_code'', to_str v2), (''tests'', to_str v3)] (Inr v4),
         Packaged (to_str v2) (to_str v3) d], w6))
     else (\<exists>z w6.
        create_zip_from_strings env
            (case v5 of Text r \<Rightarrow> if list_all isspace r then to_str v2 else r
                      | NonText r \<Rightarrow> to_str v2)
            (to_str v3) d w5 = (z, w6) \<and>
        run_pipeline_async env d ([], w) =
          (Inr (z, get_model_usage (usage_file env w6)),
           [Called refinement_server ''generate_plan'' [(''description'', d)] (Inr v1),
         Called codegen_server ''generate_app_code''
           [(''description'', d), (''plan'', to_str v1)] (Inr v2),
         Called testgen_server ''generate_tests''
           [(''app_code'', to_str v2), (''description'', d)] (Inr v3),
         Called refinement_server ''review_code''
           [(''app_code'', to_str v2), (''tests'', to_str v3)] (Inr v4),
         Called refinement_server ''refine_code''
           [(''app_code'', to_str v2), (''feedback'', to_str v4)] (Inr v5),
         Packaged
            (case v5 of Text r \<Rightarrow> if list_all isspace r then to_str v2 else r
                      | NonText r \<Rightarrow> to_str v2)
            (to_str v3) d], w6))"
proof (cases "sublist ''OK_TO_USE'' (to_str v4)")
  case True
  obtain z w6 where
    z: "create_zip_from_strings env (to_str v2) (to_str v3) d w4 = (z, w6)"
    by (cases "create_zip_from_strings env (to_str v2) (to_str v3) d w4")
  have "run_pipeline_async env d ([], w) =
          (Inr (z, get_model_usage (usage_file env w6)),
           [Called refinement_server ''generate_plan'' [(''description'', d)] (Inr v1),
         Called codegen_server ''generate_app_code''
           [(''description'', d), (''plan'', to_str v1)] (Inr v2),
         Called testgen_server ''generate_tests''
           [(''app_code'', to_str v2), (''description'', d)] (Inr v3),
         Called refinement_server ''review_code''
           [(''app_code'', to_str v2), (''tests'', to_str v3)] (Inr v4),
         Packaged (to_str v2) (to_str v3) d], w6)"
    unfolding run_with_marker [OF c1 c2 c3 c4 True]
    by (simp only: prod.case z)
  with z have "\<exists>z w6.
        create_zip_from_strings env (to_str v2) (to_str v3) d w4 = (z, w6) \<and>
        run_pipeline_async env d ([], w) =
          (Inr (z, get_model_usage (usage_file env w6)),
           [Called refinement_server ''generate_plan'' [(''description'', d)] (Inr v1),
         Called codegen_server ''generate_app_code''
           [(''description'', d), (''plan'', to_str v1)] (Inr v2),
         Called testgen_server ''generate_tests''
           [(''app_code'', to_str v2), (''description'', d)] (Inr v3),
         Called refinement_server ''review_code''
           [(''app_code'', to_str v2), (''tests'', to_str v3)] (Inr v4),
         Packaged (to_str v2) (to_str v3) d], w6)"
    by (intro exI conjI)
  then show ?thesis
    using True by (simp only: if_True)
next
  case False
  obtain z w6 where
    z: "create_zip_from_strings env
            (case v5 of Text r \<Rightarrow> if list_all isspace r then to_str v2 else r
                      | NonText r \<Rightarrow> to_str v2)
            (to_str v3) d w5 = (z, w6)"
    by (cases "create_zip_from_strings env
            (case v5 of Text r \<Rightarrow> if list_all isspace r then to_str v2 else r
                      | NonText r \<Rightarrow> to_str v2)
            (to_str v3) d w5")
  have "run_pipeline_async env d ([], w) =
          (Inr (z, get_model_usage (usage_file env w6)),
           [Called refinement_server ''generate_plan'' [(''description'', d)] (Inr v1),
         Called codegen_server ''generate_app_code''
           [(''description'', d), (''plan'', to_str v1)] (Inr v2),
         Called testgen_server ''generate_tests''
           [(''app_code'', to_str v2), (''description'', d)] (Inr v3),
         Called refinement_server ''review_code''
           [(''app_code'', to_str v2), (''tests'', to_str v3)] (Inr v4),
         Called refinement_server ''refine_code''
           [(''app_code'', to_str v2), (''feedback'', to_str v4)] (Inr v5),
         Packaged
            (case v5 of Text r \<Rightarrow> if list_all isspace r then to_str v2 else r
                      | NonText r \<Rightarrow> to_str v2)
            (to_str v3) d], w6)"
    unfolding run_without_marker [OF c1 c2 c3 c4 False] c5 accepted_code
    by (simp only: prod.case sum.case z)
  with z have "\<exists>z w6.
        create_zip_from_strings env
            (case v5 of Text r \<Rightarrow> if list_all isspace r then to_str v2 else r
                      | NonText r \<Rightarrow> to_str v2)
            (to_str v3) d w5 = (z, w6) \<and>
        run_pipeline_async env d ([], w) =
          (Inr (z, get_model_usage (usage_file env w6)),
           [Called refinement_server ''generate_plan'' [(''description'', d)] (Inr v1),
         Called codegen_server ''generate_app_code''
           [(''description'', d), (''plan'', to_str v1)] (Inr v2),
         Called testgen_server ''generate_tests''
           [(''app_code'', to_str v2), (''description'', d)] (Inr v3),
         Called refinement_server ''review_code''
           [(''app_code'', to_str v2), (''tests'', to_str v3)] (Inr v4),
         Called refinement_server ''refine_code''
           [(''app_code'', to_str v2), (''feedback'', to_str v4)] (Inr v5),
         Packaged
            (case v5 of Text r \<Rightarrow> if list_all isspace r then to_str v2 else r
                      | NonText r \<Rightarrow> to_str v2)
            (to_str v3) d], w6)"
    by (intro exI conjI)
  then show ?thesis
    using False by (simp only: if_False)
qed

theorem results_passed_downstream_witness:
  "run_pipeline_async
     (recording_env (scripted (NonText ''plan'') (NonText ''print(1)'') (NonText ''assert True'')
        (NonText ''needs work'') (NonText ''print(2)'')))
     ''d'' ([], [])
   = (Inr (''generated_app.zip'', JObj []),
      [Called refinement_server ''generate_plan'' [(''description'', ''d'')]
         (Inr (NonText ''plan'')),
       Called codegen_server ''generate_app_code''
         [(''description'', ''d''), (''plan'', ''plan'')] (Inr (NonText ''print(1)'')),
       Called testgen_server ''generate_tests''
         [(''app_code'', ''print(1)''), (''description'', ''d'')] (Inr (NonText ''assert True'')),
       Called refinement_server ''review_code''
         [(''app_code'', ''print(1)''), (''tests'', ''assert True'')] (Inr (NonText ''needs work'')),
       Called refinement_server ''refine_code''
         [(''app_code'', ''print(1)''), (''feedback'', ''needs work'')] (Inr (NonText ''print(2)'')),
       Packaged ''print(1)'' ''assert True'' ''d''],
      [Called refinement_server ''generate_plan'' [(''description'', ''d'')]
         (Inr (NonText ''plan'')),
       Called codegen_server ''generate_app_code''
         [(''description'', ''d''), (''plan'', ''plan'')] (Inr (NonText ''print(1)'')),
       Called testgen_server ''generate_tests''
         [(''app_code'', ''print(1)''), (''description'', ''d'')] (Inr (NonText ''assert True'')),
       Called refinement_server ''review_code''
         [(''app_code'', ''print(1)''), (''tests'', ''assert True'')] (Inr (NonText ''needs work'')),
       Called refinement_server ''refine_code''
         [(''app_code'', ''print(1)''), (''feedback'', ''needs work'')] (Inr (NonText ''print(2)'')),
       Packaged ''print(1)'' ''assert True'' ''d'']) \<and>
   length (filter is_refine
      [Called refinement_server ''generate_plan'' [(''description'', ''d'')]
         (Inr (NonText ''plan'')),
       Called codegen_server ''generate_app_code''
         [(''description'', ''d''), (''plan'', ''plan'')] (Inr (NonText ''print(1)'')),
       Called testgen_server ''generate_tests''
         [(''app_code'', ''print(1)''), (''description'', ''d'')] (Inr (NonText ''assert True'')),
       Called refinement_server ''review_code''
         [(''app_code'', ''print(1)''), (''tests'', ''assert True'')] (Inr (NonText ''needs work'')),
       Called refinement_server ''refine_code''
         [(''app_code'', ''print(1)''), (''feedback'', ''needs work'')] (Inr (NonText ''print(2)'')),
       Packaged ''print(1)'' ''assert True'' ''d'']) = 1"
proof -
  have c1: "call_mcp_tool (launch (recording_env (scripted (NonText ''plan'') (NonText ''print(1)'') (NonText ''assert True'')
        (NonText ''needs work'') (NonText ''print(2)''))))
      refinement_server ''generate_plan''
      [(''description'', ''d'')]
      []
    = (Inr (NonText ''plan''),
       [Called refinement_server ''generate_plan'' [(''description'', ''d'')]
         (Inr (NonText ''plan''))])"
    by code_simp
  have c2: "call_mcp_tool (launch (recording_env (scripted (NonText ''plan'') (NonText ''print(1)'') (NonText ''assert True'')
        (NonText ''needs work'') (NonText ''print(2)''))))
      codegen_server ''generate_app_code''
      [(''description'', ''d''), (''plan'', to_str (NonText ''plan''))]
      [Called refinement_server ''generate_plan'' [(''description'', ''d'')]
         (Inr (NonText ''plan''))]
    = (Inr (NonText ''print(1)''),
       [Called refinement_server ''generate_plan'' [(''description'', ''d'')]
         (Inr (NonText ''plan'')),
       Called codegen_server ''generate_app_code''
         [(''description'', ''d''), (''plan'', ''plan'')] (Inr (NonText ''print(1)''))])"
    by code_simp
  have c3: "call_mcp_tool (launch (recording_env (scripted (NonText ''plan'') (NonText ''print(1)'') (NonText ''assert True'')
        (NonText ''needs work'') (NonText ''print(2)''))))
      testgen_server ''generate_tests''
      [(''app_code'', to_str (NonText ''print(1)'')), (''description'', ''d'')]
      [Called refinement_server ''generate_plan'' [(''description'', ''d'')]
         (Inr (NonText ''plan'')),
       Called codegen_server ''generate_app_code''
         [(''description'', ''d''), (''plan'', ''plan'')] (Inr (NonText ''print(1)''))]
    = (Inr (NonText ''assert True''),
       [Called refinement_server ''generate_plan'' [(''description'', ''d'')]
         (Inr (NonText ''plan'')),
       Called codegen_server ''generate_app_code''
         [(''description'', ''d''), (''plan'', ''plan'')] (Inr (NonText ''print(1)'')),
       Called testgen_server ''generate_tests''
         [(''app_code'', ''print(1)''), (''description'', ''d'')] (Inr (NonText ''assert True''))])"
    by code_simp
  have c4: "call_mcp_tool (launch (recording_env (scripted (NonText ''plan'') (NonText ''print(1)'') (NonText ''assert True'')
        (NonText ''needs work'') (NonText ''print(2)''))))
      refinement_server ''review_code''
      [(''app_code'', to_str (NonText ''print(1)'')), (''tests'', to_str (NonText ''assert True''))]
      [Called refinement_server ''generate_plan'' [(''description'', ''d'')]
         (Inr (NonText ''plan'')),
       Called codegen_server ''generate_app_code''
         [(''description'', ''d''), (''plan'', ''plan'')] (Inr (NonText ''print(1)'')),
       Called testgen_server ''generate_tests''
         [(''app_code'', ''print(1)''), (''description'', ''d'')] (Inr (NonText ''assert True''))]
    = (Inr (NonText ''needs work''),
       [Called refinement_server ''generate_plan'' [(''description'', ''d'')]
         (Inr (NonText ''plan'')),
       Called codegen_server ''generate_app_code''
         [(''description'', ''d''), (''plan'', ''plan'')] (Inr (NonText ''print(1)'')),
       Called testgen_server ''generate_tests''
         [(''app_code'', ''print(1)''), (''description'', ''d'')] (Inr (NonText ''assert True'')),
       Called refinement_server ''review_code''
         [(''app_code'', ''print(1)''), (''tests'', ''assert True'')] (Inr (NonText ''needs work''))])"
    by code_simp
  have c5: "call_mcp_tool (launch (recording_env (scripted (NonText ''plan'') (NonText ''print(1)'') (NonText ''assert True'')
        (NonText ''needs work'') (NonText ''print(2)''))))
      refinement_server ''refine_code''
      [(''app_code'', to_str (NonText ''print(1)'')), (''feedback'', to_str (NonText ''needs work''))]
      [Called refinement_server ''generate_plan'' [(''description'', ''d'')]
         (Inr (NonText ''plan'')),
       Called codegen_server ''generate_app_code''
         [(''description'', ''d''), (''plan'', ''plan'')] (Inr (NonText ''print(1)'')),
       Called testgen_server ''generate_tests''
         [(''app_code'', ''print(1)''), (''description'', ''d'')] (Inr (NonText ''assert True'')),
       Called refinement_server ''review_code''
         [(''app_code'', ''print(1)''), (''tests'', ''assert True'')] (Inr (NonText ''needs work''))]
    = (Inr (NonText ''print(2)''),
       [Called refinement_server ''generate_plan'' [(''description'', ''d'')]
         (Inr (NonText ''plan'')),
       Called codegen_server ''generate_app_code''
         [(''description'', ''d''), (''plan'', ''plan'')] (Inr (NonText ''print(1)'')),
       Called testgen_server ''generate_tests''
         [(''app_code'', ''print(1)''), (''description'', ''d'')] (Inr (NonText ''assert True'')),
       Called refinement_server ''review_code''
         [(''app_code'', ''print(1)''), (''tests'', ''assert True'')] (Inr (NonText ''needs work'')),
       Called refinement_server ''refine_code''
         [(''app_code'', ''print(1)''), (''feedback'', ''needs work'')] (Inr (NonText ''print(2)''))])"
    by code_simp
  have nm: "\<not> sublist ''OK_TO_USE'' (to_str (NonText ''needs work''))"
    by code_simp
  have zf: "create_zip_from_strings (recording_env (scripted (NonText ''plan'') (NonText ''print(1)'') (NonText ''assert True'')
        (NonText ''needs work'') (NonText ''print(2)'')))
      ''print(1)'' ''assert True'' ''d''
      [Called refinement_server ''generate_plan'' [(''description'', ''d'')]
         (Inr (NonText ''plan'')),
       Called codegen_server ''generate_app_code''
         [(''description'', ''d''), (''plan'', ''plan'')] (Inr (NonText ''print(1)'')),
       Called testgen_server ''generate_tests''
         [(''app_code'', ''print(1)''), (''description'', ''d'')] (Inr (NonText ''assert True'')),
       Called refinement_server ''review_code''
         [(''app_code'', ''print(1)''), (''tests'', ''assert True'')] (Inr (NonText ''needs work'')),
       Called refinement_server ''refine_code''
         [(''app_code'', ''print(1)''), (''feedback'', ''needs work'')] (Inr (NonText ''print(2)''))]
    = (''generated_app.zip'',
       [Called refinement_server ''generate_plan'' [(''description'', ''d'')]
         (Inr (NonText ''plan'')),
       Called codegen_server ''generate_app_code''
         [(''description'', ''d''), (''plan'', ''plan'')] (Inr (NonText ''print(1)'')),
       Called testgen_server ''generate_tests''
         [(''app_code'', ''print(1)''), (''description'', ''d'')] (Inr (NonText ''assert True'')),
       Called refinement_server ''review_code''
         [(''app_code'', ''print(1)''), (''tests'', ''assert True'')] (Inr (NonText ''needs work'')),
       Called refinement_server ''refine_code''
         [(''app_code'', ''print(1)''), (''feedback'', ''needs work'')] (Inr (NonText ''print(2)'')),
       Packaged ''print(1)'' ''assert True'' ''d''])"
    by (simp add: recording_env_def)
  have uf: "get_model_usage (usage_file (recording_env (scripted (NonText ''plan'') (NonText ''print(1)'') (NonText ''assert True'')
        (NonText ''needs work'') (NonText ''print(2)''))) x) = JObj []" for x
    by (simp add: recording_env_def get_model_usage_def load_usage_def exists_def)
  have ex: "\<exists>z w6.
        create_zip_from_strings (recording_env (scripted (NonText ''plan'') (NonText ''print(1)'') (NonText ''assert True'')
        (NonText ''needs work'') (NonText ''print(2)'')))
            (case (NonText ''print(2)'') of
               Text r \<Rightarrow> if list_all isspace r then to_str (NonText ''print(1)'') else r
             | NonText r \<Rightarrow> to_str (NonText ''print(1)''))
            (to_str (NonText ''assert True'')) ''d''
            [Called refinement_server ''generate_plan'' [(''description'', ''d'')]
         (Inr (NonText ''plan'')),
       Called codegen_server ''generate_app_code''
         [(''description'', ''d''), (''plan'', ''plan'')] (Inr (NonText ''print(1)'')),
       Called testgen_server ''generate_tests''
         [(''app_code'', ''print(1)''), (''description'', ''d'')] (Inr (NonText ''assert True'')),
       Called refinement_server ''review_code''
         [(''app_code'', ''print(1)''), (''tests'', ''assert True'')] (Inr (NonText ''needs work'')),
       Called refinement_server ''refine_code''
         [(''app_code'', ''print(1)''), (''feedback'', ''needs work'')] (Inr (NonText ''print(2)''))] = (z, w6) \<and>
        run_pipeline_async
          (recording_env (scripted (NonText ''plan'') (NonText ''print(1)'') (NonText ''assert True'')
        (NonText ''needs work'') (NonText ''print(2)'')))
          ''d'' ([], []) =
          (Inr (z, get_model_usage (usage_file (recording_env (scripted (NonText ''plan'') (NonText ''print(1)'') (NonText ''assert True'')
        (NonText ''needs work'') (NonText ''print(2)''))) w6)),
           [Called refinement_server ''generate_plan'' [(''description'', ''d'')]
              (Inr (NonText ''plan'')),
            Called codegen_server ''generate_app_code''
              [(''description'', ''d''), (''plan'', to_str (NonText ''plan''))] (Inr (NonText ''print(1)'')),
            Called testgen_server ''generate_tests''
              [(''app_code'', to_str (NonText ''print(1)'')), (''description'', ''d'')] (Inr (NonText ''assert True'')),
            Called refinement_server ''review_code''
              [(''app_code'', to_str (NonText ''print(1)'')), (''tests'', to_str (NonText ''assert True''))]
              (Inr (NonText ''needs work'')),
            Called refinement_server ''refine_code''
              [(''app_code'', to_str (NonText ''print(1)'')), (''feedback'', to_str (NonText ''needs work''))]
              (Inr (NonText ''print(2)'')),
            Packaged
              (case (NonText ''print(2)'') of
                 Text r \<Rightarrow> if list_all isspace r then to_str (NonText ''print(1)'') else r
               | NonText r \<Rightarrow> to_str (NonText ''print(1)''))
              (to_str (NonText ''assert True'')) ''d''], w6)"
    using results_passed_downstream [OF c1 c2 c3 c4 c5] nm by (simp only: if_False)
  then obtain z w6 where
    z: "create_zip_from_strings (recording_env (scripted (NonText ''plan'') (NonText ''print(1)'') (NonText ''assert True'')
        (NonText ''needs work'') (NonText ''print(2)'')))
            (case (NonText ''print(2)'') of
               Text r \<Rightarrow> if list_all isspace r then to_str (NonText ''print(1)'') else r
             | NonText r \<Rightarrow> to_str (NonText ''print(1)''))
            (to_str (NonText ''assert True'')) ''d''
            [Called refinement_server ''generate_plan'' [(''description'', ''d'')]
         (Inr (NonText ''plan'')),
       Called codegen_server ''generate_app_code''
         [(''description'', ''d''), (''plan'', ''plan'')] (Inr (NonText ''print(1)'')),
       Called testgen_server ''generate_tests''
         [(''app_code'', ''print(1)''), (''description'', ''d'')] (Inr (NonText ''assert True'')),
       Called refinement_server ''review_code''
         [(''app_code'', ''print(1)''), (''tests'', ''assert True'')] (Inr (NonText ''needs work'')),
       Called refinement_server ''refine_code''
         [(''app_code'', ''print(1)''), (''feedback'', ''needs work'')] (Inr (NonText ''print(2)''))] = (z, w6)"
    and r: "run_pipeline_async
          (recording_env (scripted (NonText ''plan'') (NonText ''print(1)'') (NonText ''assert True'')
        (NonText ''needs work'') (NonText ''print(2)'')))
          ''d'' ([], []) =
          (Inr (z, get_model_usage (usage_file (recording_env (scripted (NonText ''plan'') (NonText ''print(1)'') (NonText ''assert True'')
        (NonText ''needs work'') (NonText ''print(2)''))) w6)),
           [Called refinement_server ''generate_plan'' [(''description'', ''d'')]
              (Inr (NonText ''plan'')),
            Called codegen_server ''generate_app_code''
              [(''description'', ''d''), (''plan'', to_str (NonText ''plan''))] (Inr (NonText ''print(1)'')),
            Called testgen_server ''generate_tests''
              [(''app_code'', to_str (NonText ''print(1)'')), (''description'', ''d'')] (Inr (NonText ''assert True'')),
            Called refinement_server ''review_code''
              [(''app_code'', to_str (NonText ''print(1)'')), (''tests'', to_str (NonText ''assert True''))]
              (Inr (NonText ''needs work'')),
            Called refinement_server ''refine_code''
              [(''app_code'', to_str (NonText ''print(1)'')), (''feedback'', to_str (NonText ''needs work''))]
              (Inr (NonText ''print(2)'')),
            Packaged
              (case (NonText ''print(2)'') of
                 Text r \<Rightarrow> if list_all isspace r then to_str (NonText ''print(1)'') else r
               | NonText r \<Rightarrow> to_str (NonText ''print(1)''))
              (to_str (NonText ''assert True'')) ''d''], w6)"
    by (elim exE conjE)
  have "z = ''generated_app.zip'' \<and> w6 =
      [Called refinement_server ''generate_plan'' [(''description'', ''d'')]
         (Inr (NonText ''plan'')),
       Called codegen_server ''generate_app_code''
         [(''description'', ''d''), (''plan'', ''plan'')] (Inr (NonText ''print(1)'')),
       Called testgen_server ''generate_tests''
         [(''app_code'', ''print(1)''), (''description'', ''d'')] (Inr (NonText ''assert True'')),
       Called refinement_server ''review_code''
         [(''app_code'', ''print(1)''), (''tests'', ''assert True'')] (Inr (NonText ''needs work'')),
       Called refinement_server ''refine_code''
         [(''app_code'', ''print(1)''), (''feedback'', ''needs work'')] (Inr (NonText ''print(2)'')),
       Packaged ''print(1)'' ''assert True'' ''d'']"
    using z zf by (simp add: to_str_def)
  then have run: "run_pipeline_async
     (recording_env (scripted (NonText ''plan'') (NonText ''print(1)'') (NonText ''assert True'')
        (NonText ''needs work'') (NonText ''print(2)'')))
     ''d'' ([], [])
   = (Inr (''generated_app.zip'', JObj []),
      [Called refinement_server ''generate_plan'' [(''description'', ''d'')]
         (Inr (NonText ''plan'')),
       Called codegen_server ''generate_app_code''
         [(''description'', ''d''), (''plan'', ''plan'')] (Inr (NonText ''print(1)'')),
       Called testgen_server ''generate_tests''
         [(''app_code'', ''print(1)''), (''description'', ''d'')] (Inr (NonText ''assert True'')),
       Called refinement_server ''review_code''
         [(''app_code'', ''print(1)''), (''tests'', ''assert True'')] (Inr (NonText ''needs work'')),
       Called refinement_server ''refine_code''
         [(''app_code'', ''print(1)''), (''feedback'', ''needs work'')] (Inr (NonText ''print(2)'')),
       Packaged ''print(1)'' ''assert True'' ''d''],
      [Called refinement_server ''generate_plan'' [(''description'', ''d'')]
         (Inr (NonText ''plan'')),
       Called codegen_server ''generate_app_code''
         [(''description'', ''d''), (''plan'', ''plan'')] (Inr (NonText ''print(1)'')),
       Called testgen_server ''generate_tests''
         [(''app_code'', ''print(1)''), (''description'', ''d'')] (Inr (NonText ''assert True'')),
       Called refinement_server ''review_code''
         [(''app_code'', ''print(1)''), (''tests'', ''assert True'')] (Inr (NonText ''needs work'')),
       Called refinement_server ''refine_code''
         [(''app_code'', ''print(1)''), (''feedback'', ''needs work'')] (Inr (NonText ''print(2)'')),
       Packaged ''print(1)'' ''assert True'' ''d''])"
    using r by (simp add: to_str_def uf)
  have count: "length (filter is_refine
      [Called refinement_server ''generate_plan'' [(''description'', ''d'')]
         (Inr (NonText ''plan'')),
       Called codegen_server ''generate_app_code''
         [(''description'', ''d''), (''plan'', ''plan'')] (Inr (NonText ''print(1)'')),
       Called testgen_server ''generate_tests''
         [(''app_code'', ''print(1)''), (''description'', ''d'')] (Inr (NonText ''assert True'')),
       Called refinement_server ''review_code''
         [(''app_code'', ''print(1)''), (''tests'', ''assert True'')] (Inr (NonText ''needs work'')),
       Called refinement_server ''refine_code''
         [(''app_code'', ''print(1)''), (''feedback'', ''needs work'')] (Inr (NonText ''print(2)'')),
       Packaged ''print(1)'' ''assert True'' ''d'']) = 1"
    by simp
  show ?thesis
    using run count by (rule conjI)
qed

text \<open>
  A run in which the refine call returns a value that is not a text: the value is discarded,
  and the packager gets the \<open>app_code\<close> of before the refinement.
\<close>

theorem nontext_refinement_dropped:
  "run_pipeline_async
     (stub_env (canned (Text ''plan'') (Text ''print(1)'') (Text ''assert True'')
        (Text ''needs work'') [stub_tool ''refine_code'' (Inr (NonText ''print(2)''))]))
     ''d'' ([], ())
   = (Inr (''generated_app.zip'', JObj []),
      [Called refinement_server ''generate_plan'' [(''description'', ''d'')] (Inr (Text ''plan'')),
       Called codegen_server ''generate_app_code'' [(''description'', ''d''), (''plan'', ''plan'')]
         (Inr (Text ''print(1)'')),
       Called testgen_server ''generate_tests''
         [(''app_code'', ''print(1)''), (''description'', ''d'')] (Inr (Text ''assert True'')),
       Called refinement_server ''review_code''
         [(''app_code'', ''print(1)''), (''tests'', ''assert True'')] (Inr (Text ''needs work'')),
       Called refinement_server ''refine_code''
         [(''app_code'', ''print(1)''), (''feedback'', ''needs work'')]
         (Inr (NonText ''print(2)'')),
       Packaged ''print(1)'' ''assert True'' ''d''], ()) \<and>
   to_str (NonText ''print(2)'') \<noteq> ''print(1)''"
proof -
  have "to_str (NonText ''print(2)'') \<noteq> ''print(1)''" by (simp add: to_str_def)
  moreover have "run_pipeline_async
     (stub_env (canned (Text ''plan'') (Text ''print(1)'') (Text ''assert True'')
        (Text ''needs work'') [stub_tool ''refine_code'' (Inr (NonText ''print(2)''))]))
     ''d'' ([], ())
   = (Inr (''generated_app.zip'', JObj []),
      [Called refinement_server ''generate_plan'' [(''description'', ''d'')] (Inr (Text ''plan'')),
       Called codegen_server ''generate_app_code'' [(''description'', ''d''), (''plan'', ''plan'')]
         (Inr (Text ''print(1)'')),
       Called testgen_server ''generate_tests''
         [(''app_code'', ''print(1)''), (''description'', ''d'')] (Inr (Text ''assert True'')),
       Called refinement_server ''review_code''
         [(''app_code'', ''print(1)''), (''tests'', ''assert True'')] (Inr (Text ''needs work'')),
       Called refinement_server ''refine_code''
         [(''app_code'', ''print(1)''), (''feedback'', ''needs work'')]
         (Inr (NonText ''print(2)'')),
       Packaged ''print(1)'' ''assert True'' ''d''], ())" by code_simp
  ultimately show ?thesis by blast
qed

section \<open>The ledger after a run of the deployed servers\<close>

lemma ask_recorded:
  assumes "new_chat cfg = Inr c"
    and "ask cfg prompt (\<lambda>l p. invoke l p agent) f = (Inr t, f')"
  shows "\<exists>n. update_usage agent ''gemini-2.5-flash'' n f = Inr f'"
  using assms
  by (auto simp: ask_def get_llm_def invoke_def Let_def split: sum.splits prod.splits if_splits)

lemma deliver_Inr: "deliver r = (Inr v, f') \<Longrightarrow> \<exists>t. r = (Inr t, f') \<and> v = Text t"
  by (auto simp: deliver_def split: prod.splits sum.splits)

lemma plan_recorded:
  assumes "new_chat cfg = Inr c"
    and "call_mcp_tool (launch_script cfg) refinement_server ''generate_plan'' a f = (Inr v, f')"
  shows "\<exists>n. update_usage ''UnknownAgent'' ''gemini-2.5-flash'' n f = Inr f'"
  using assms(2) ask_recorded [OF assms(1)]
  by (auto simp: call_mcp_tool_def launch_script_def refinement_tools_def servers
      missing_def generate_plan_def split: option.splits dest!: deliver_Inr)

lemma review_recorded:
  assumes "new_chat cfg = Inr c"
    and "call_mcp_tool (launch_script cfg) refinement_server ''review_code'' a f = (Inr v, f')"
  shows "\<exists>n. update_usage ''UnknownAgent'' ''gemini-2.5-flash'' n f = Inr f'"
  using assms(2) ask_recorded [OF assms(1)]
  by (auto simp: call_mcp_tool_def launch_script_def refinement_tools_def servers
      missing_def review_code_def split: option.splits dest!: deliver_Inr)

lemma codegen_recorded:
  assumes "new_chat cfg = Inr c"
    and "call_mcp_tool (launch_script cfg) codegen_server ''generate_app_code'' a f = (Inr v, f')"
  shows "\<exists>n. update_usage ''CodeGenerator'' ''gemini-2.5-flash'' n f = Inr f'"
  using assms(2) ask_recorded [OF assms(1)]
  by (auto simp: call_mcp_tool_def launch_script_def codegen_tools_def servers
      missing_def generate_app_code_def split: option.splits dest!: deliver_Inr)

lemma testgen_recorded:
  assumes "new_chat cfg = Inr c"
    and "call_mcp_tool (launch_script cfg) testgen_server ''generate_tests'' a f = (Inr v, f')"
  shows "\<exists>n. update_usage ''TestGenerator'' ''gemini-2.5-flash'' n f = Inr f'"
  using assms(2) ask_recorded [OF assms(1)]
  by (auto simp: call_mcp_tool_def launch_script_def testgen_tools_def servers
      missing_def generate_tests_def split: option.splits dest!: deliver_Inr)

lemma four_records:
  assumes "load_usage f = JObj []"
    and "update_usage ''UnknownAgent'' g n1 f = Inr f1"
    and "update_usage ''CodeGenerator'' g n2 f1 = Inr f2"
    and "update_usage ''TestGenerator'' g n3 f2 = Inr f3"
    and "update_usage ''UnknownAgent'' g n4 f3 = Inr f4"
  shows "load_usage f4 = JObj [(''UnknownAgent'', JObj [(g, counter 2 (n1 + n4))]),
            (''CodeGenerator'', JObj [(g, counter 1 n2)]),
            (''TestGenerator'', JObj [(g, counter 1 n3)])]"
proof -
  have wr: "writable f"
    using assms(2) update_usage_first [OF assms(1), of "''UnknownAgent''" g n1]
    by (simp split: if_splits)
  have 1: "f1 = f\<lparr>held := Stored (JObj [(''UnknownAgent'', JObj [(g, counter 1 n1)])])\<rparr>"
    using assms(2) wr update_usage_first [OF assms(1), of "''UnknownAgent''" g n1] by simp
  have 2: "f2 = f\<lparr>held := Stored (JObj [(''UnknownAgent'', JObj [(g, counter 1 n1)]),
                                        (''CodeGenerator'', JObj [(g, counter 1 n2)])])\<rparr>"
    using assms(3) wr unfolding 1
    by (simp add: update_usage_def load_usage_saved add_field_def save_usage_def counter_def)
  have 3: "f3 = f\<lparr>held := Stored (JObj [(''UnknownAgent'', JObj [(g, counter 1 n1)]),
                                        (''CodeGenerator'', JObj [(g, counter 1 n2)]),
                                        (''TestGenerator'', JObj [(g, counter 1 n3)])])\<rparr>"
    using assms(4) wr unfolding 2
    by (simp add: update_usage_def load_usage_saved add_field_def save_usage_def counter_def)
  have 4: "f4 = f\<lparr>held := Stored (JObj [(''UnknownAgent'', JObj [(g, counter 2 (n1 + n4))]),
                                        (''CodeGenerator'', JObj [(g, counter 1 n2)]),
                                        (''TestGenerator'', JObj [(g, counter 1 n3)])])\<rparr>"
    using assms(5) wr unfolding 3
    by (simp add: update_usage_def load_usage_saved add_field_def save_usage_def counter_def)
  show ?thesis unfolding 4 by (simp add: load_usage_saved)
qed

lemma run_success_cases:
  assumes "run_pipeline_async env d ([], w) = (Inr r, tr, w')"
  shows "\<exists>v1 w1 v2 w2 v3 w3 v4 w4.
    call_mcp_tool (launch env) refinement_server ''generate_plan'' [(''description'', d)] w
      = (Inr v1, w1) \<and>
    call_mcp_tool (launch env) codegen_server ''generate_app_code''
      [(''description'', d), (''plan'', to_str v1)] w1 = (Inr v2, w2) \<and>
    call_mcp_tool (launch env) testgen_server ''generate_tests''
      [(''app_code'', to_str v2), (''description'', d)] w2 = (Inr v3, w3) \<and>
    call_mcp_tool (launch env) refinement_server ''review_code''
      [(''app_code'', to_str v2), (''tests'', to_str v3)] w3 = (Inr v4, w4) \<and>
    (if sublist ''OK_TO_USE'' (to_str v4)
     then tr = [Called refinement_server ''generate_plan'' [(''description'', d)] (Inr v1),
                Called codegen_server ''generate_app_code''
                  [(''description'', d), (''plan'', to_str v1)] (Inr v2),
                Called testgen_server ''generate_tests''
                  [(''app_code'', to_str v2), (''description'', d)] (Inr v3),
                Called refinement_server ''review_code''
                  [(''app_code'', to_str v2), (''tests'', to_str v3)] (Inr v4),
                Packaged (to_str v2) (to_str v3) d] \<and>
          w' = snd (create_zip_from_strings env (to_str v2) (to_str v3) d w4) \<and>
          snd r = get_model_usage (usage_file env w')
     else (\<exists>v5 code. tr =
               [Called refinement_server ''generate_plan'' [(''description'', d)] (Inr v1),
                Called codegen_server ''generate_app_code''
                  [(''description'', d), (''plan'', to_str v1)] (Inr v2),
                Called testgen_server ''generate_tests''
                  [(''app_code'', to_str v2), (''description'', d)] (Inr v3),
                Called refinement_server ''review_code''
                  [(''app_code'', to_str v2), (''tests'', to_str v3)] (Inr v4),
                Called refinement_server ''refine_code''
                  [(''app_code'', to_str v2), (''feedback'', to_str v4)] (Inr v5),
                Packaged code (to_str v3) d]))"
  using assms unfolding run_pipeline_async_def Let_def traced_call_def
  by (auto split: prod.splits sum.splits if_splits)

lemma marker_run_calls:
  assumes "run_pipeline_async (deployed cfg zn) d ([], f) = (Inr (zpath, usage), tr, f')"
    and "Called refinement_server ''review_code'' a (Inr fb) \<in> set tr"
    and "sublist ''OK_TO_USE'' (to_str fb)"
  shows "\<exists>a1 v1 f1 a2 v2 f2 a3 v3 f3 a4 v4.
      call_mcp_tool (launch_script cfg) refinement_server ''generate_plan'' a1 f = (Inr v1, f1) \<and>
      call_mcp_tool (launch_script cfg) codegen_server ''generate_app_code'' a2 f1 = (Inr v2, f2) \<and>
      call_mcp_tool (launch_script cfg) testgen_server ''generate_tests'' a3 f2 = (Inr v3, f3) \<and>
      call_mcp_tool (launch_script cfg) refinement_server ''review_code'' a4 f3 = (Inr v4, f') \<and>
      usage = load_usage f'"
proof -
  have l: "launch (deployed cfg zn) = launch_script cfg"
    by (simp add: deployed_def)
  obtain v1 f1 v2 f2 v3 f3 v4 f4 where
    c1: "call_mcp_tool (launch_script cfg) refinement_server ''generate_plan''
           [(''description'', d)] f = (Inr v1, f1)"
    and c2: "call_mcp_tool (launch_script cfg) codegen_server ''generate_app_code''
           [(''description'', d), (''plan'', to_str v1)] f1 = (Inr v2, f2)"
    and c3: "call_mcp_tool (launch_script cfg) testgen_server ''generate_tests''
           [(''app_code'', to_str v2), (''description'', d)] f2 = (Inr v3, f3)"
    and c4: "call_mcp_tool (launch_script cfg) refinement_server ''review_code''
           [(''app_code'', to_str v2), (''tests'', to_str v3)] f3 = (Inr v4, f4)"
    and branch: "if sublist ''OK_TO_USE'' (to_str v4)
     then tr = [Called refinement_server ''generate_plan'' [(''description'', d)] (Inr v1),
                Called codegen_server ''generate_app_code''
                  [(''description'', d), (''plan'', to_str v1)] (Inr v2),
                Called testgen_server ''generate_tests''
                  [(''app_code'', to_str v2), (''description'', d)] (Inr v3),
                Called refinement_server ''review_code''
                  [(''app_code'', to_str v2), (''tests'', to_str v3)] (Inr v4),
                Packaged (to_str v2) (to_str v3) d] \<and>
          f' = snd (create_zip_from_strings (deployed cfg zn) (to_str v2) (to_str v3) d f4) \<and>
          snd (zpath, usage) = get_model_usage (usage_file (deployed cfg zn) f')
     else (\<exists>v5 code. tr =
               [Called refinement_server ''generate_plan'' [(''description'', d)] (Inr v1),
                Called codegen_server ''generate_app_code''
                  [(''description'', d), (''plan'', to_str v1)] (Inr v2),
                Called testgen_server ''generate_tests''
                  [(''app_code'', to_str v2), (''description'', d)] (Inr v3),
                Called refinement_server ''review_code''
                  [(''app_code'', to_str v2), (''tests'', to_str v3)] (Inr v4),
                Called refinement_server ''refine_code''
                  [(''app_code'', to_str v2), (''feedback'', to_str v4)] (Inr v5),
                Packaged code (to_str v3) d])"
    using run_success_cases [OF assms(1)] unfolding l by blast
  have marker: "sublist ''OK_TO_USE'' (to_str v4)"
  proof (rule ccontr)
    assume no: "\<not> sublist ''OK_TO_USE'' (to_str v4)"
    then obtain v5 code where "tr =
               [Called refinement_server ''generate_plan'' [(''description'', d)] (Inr v1),
                Called codegen_server ''generate_app_code''
                  [(''description'', d), (''plan'', to_str v1)] (Inr v2),
                Called testgen_server ''generate_tests''
                  [(''app_code'', to_str v2), (''description'', d)] (Inr v3),
                Called refinement_server ''review_code''
                  [(''app_code'', to_str v2), (''tests'', to_str v3)] (Inr v4),
                Called refinement_server ''refine_code''
                  [(''app_code'', to_str v2), (''feedback'', to_str v4)] (Inr v5),
                Packaged code (to_str v3) d]"
      using branch by auto
    then have "fb = v4"
      using assms(2) by (simp add: servers)
    then show False
      using no assms(3) by simp
  qed
  have "f' = f4" and "usage = load_usage f'"
    using branch marker by (simp_all add: deployed_def get_model_usage_def)
  then show ?thesis
    using c1 c2 c3 c4 by blast
qed

lemma total_calls_three:
  "total_calls (JObj [(a1, JObj [(g, counter 2 t1)]), (a2, JObj [(g, counter 1 t2)]),
      (a3, JObj [(g, counter 1 t3)])]) = 4"
  by (simp add: total_calls_def agent_calls_def calls_of_def counter_def)

text \<open>
  C1. Take the deployed servers with a model wrapper that can be constructed, a ledger that
  is empty at the start, and a run that succeeds with the acceptance marker in the review
  feedback. The ledger returned then records 4 calls in all, in three counter records of the
  one model: code generation and test generation each have their own record with
  \<open>numApiCalls = 1\<close>, and the plan and the review calls, which are tools of one server, are
  counted in one record with \<open>numApiCalls = 2\<close>.
\<close>

theorem marker_run_ledger:
  assumes "new_chat cfg = Inr c"
    and "load_usage f = JObj []"
    and "run_pipeline_async (deployed cfg zn) d ([], f) = (Inr (zpath, usage), tr, f')"
    and "Called refinement_server ''review_code'' a (Inr fb) \<in> set tr"
    and "sublist ''OK_TO_USE'' (to_str fb)"
  shows "\<exists>agent t1 t2 t3.
      usage = JObj [(agent, JObj [(''gemini-2.5-flash'', counter 2 t1)]),
                    (''CodeGenerator'', JObj [(''gemini-2.5-flash'', counter 1 t2)]),
                    (''TestGenerator'', JObj [(''gemini-2.5-flash'', counter 1 t3)])] \<and>
      total_calls usage = 4"
proof -
  from marker_run_calls [OF assms(3,4,5)]
  obtain a1 v1 f1 a2 v2 f2 a3 v3 f3 a4 v4 where
    c1: "call_mcp_tool (launch_script cfg) refinement_server ''generate_plan'' a1 f = (Inr v1, f1)"
    and c2: "call_mcp_tool (launch_script cfg) codegen_server ''generate_app_code'' a2 f1 = (Inr v2, f2)"
    and c3: "call_mcp_tool (launch_script cfg) testgen_server ''generate_tests'' a3 f2 = (Inr v3, f3)"
    and c4: "call_mcp_tool (launch_script cfg) refinement_server ''review_code'' a4 f3 = (Inr v4, f')"
    and us: "usage = load_usage f'"
    by (elim exE conjE)
  from plan_recorded [OF assms(1) c1]
  obtain n1 where r1: "update_usage ''UnknownAgent'' ''gemini-2.5-flash'' n1 f = Inr f1" ..
  from codegen_recorded [OF assms(1) c2]
  obtain n2 where r2: "update_usage ''CodeGenerator'' ''gemini-2.5-flash'' n2 f1 = Inr f2" ..
  from testgen_recorded [OF assms(1) c3]
  obtain n3 where r3: "update_usage ''TestGenerator'' ''gemini-2.5-flash'' n3 f2 = Inr f3" ..
  from review_recorded [OF assms(1) c4]
  obtain n4 where r4: "update_usage ''UnknownAgent'' ''gemini-2.5-flash'' n4 f3 = Inr f'" ..
  have eq: "usage = JObj [(''UnknownAgent'', JObj [(''gemini-2.5-flash'', counter 2 (n1 + n4))]),
                      (''CodeGenerator'', JObj [(''gemini-2.5-flash'', counter 1 n2)]),
                      (''TestGenerator'', JObj [(''gemini-2.5-flash'', counter 1 n3)])]"
    unfolding us by (rule four_records [OF assms(2) r1 r2 r3 r4])
  have tc: "total_calls usage = 4"
    unfolding eq by (rule total_calls_three)
  show ?thesis
    by (intro exI conjI) (rule eq, rule tc)
qed

theorem marker_run_ledger_witness:
  "run_pipeline_async (deployed canned_config fixed_zip) ''Track steps walked per day'' ([], \<lparr>held = Missing, writable = True\<rparr>)
   = (Inr (''generated_app.zip'',
        JObj [(''UnknownAgent'', JObj [(''gemini-2.5-flash'', counter 2 6)]),
              (''CodeGenerator'', JObj [(''gemini-2.5-flash'', counter 1 1)]),
              (''TestGenerator'', JObj [(''gemini-2.5-flash'', counter 1 3)])]),
      [Called refinement_server ''generate_plan''
         [(''description'', ''Track steps walked per day'')] (Inr (Text ''1. do it'')),
       Called codegen_server ''generate_app_code''
         [(''description'', ''Track steps walked per day''), (''plan'', ''1. do it'')]
         (Inr (Text ''print(1)'')),
       Called testgen_server ''generate_tests''
         [(''app_code'', ''print(1)''), (''description'', ''Track steps walked per day'')]
         (Inr (Text ''def test_app(): pass'')),
       Called refinement_server ''review_code''
         [(''app_code'', ''print(1)''), (''tests'', ''def test_app(): pass'')]
         (Inr (Text ''looks fine OK_TO_USE'')),
       Packaged ''print(1)'' ''def test_app(): pass'' ''Track steps walked per day''],
      \<lparr>held = Stored (JObj [(''UnknownAgent'', JObj [(''gemini-2.5-flash'', counter 2 6)]),
                            (''CodeGenerator'', JObj [(''gemini-2.5-flash'', counter 1 1)]),
                            (''TestGenerator'', JObj [(''gemini-2.5-flash'', counter 1 3)])]),
       writable = True\<rparr>) \<and>
   total_calls (JObj [(''UnknownAgent'', JObj [(''gemini-2.5-flash'', counter 2 6)]),
              (''CodeGenerator'', JObj [(''gemini-2.5-flash'', counter 1 1)]),
              (''TestGenerator'', JObj [(''gemini-2.5-flash'', counter 1 3)])]) = 4"
  (is "?run = (Inr (?zip, ?usage), ?tr, ?f) \<and> _")
proof -
  have cfg: "new_chat canned_config = Inr canned_chat" by (simp add: canned_config_def)
  have empty: "load_usage \<lparr>held = Missing, writable = True\<rparr> = JObj []"
    by (simp add: load_usage_def exists_def)
  have run: "?run = (Inr (?zip, ?usage), ?tr, ?f)" by code_simp
  have mem: "Called refinement_server ''review_code''
         [(''app_code'', ''print(1)''), (''tests'', ''def test_app(): pass'')]
         (Inr (Text ''looks fine OK_TO_USE'')) \<in> set ?tr" by simp
  have marker: "sublist ''OK_TO_USE'' (to_str (Text ''looks fine OK_TO_USE''))" by code_simp
  have tc: "total_calls ?usage = 4"
    using marker_run_ledger [OF cfg empty run mem marker] by (elim exE conjE)
  show ?thesis
    by (rule conjI) (rule run, rule tc)
qed

text \<open>
  The run of the end-to-end scenario on the deployed servers with canned model answers: the
  plan and the review calls are both counted in the record of \<open>UnknownAgent\<close>, which shows
  \<open>numApiCalls = 2\<close>, not 1.
\<close>

theorem plan_and_review_share_a_counter:
  "fst (run_pipeline_async (deployed canned_config fixed_zip) ''Track steps walked per day''
          ([], \<lparr>held = Missing, writable = True\<rparr>))
   = Inr (''generated_app.zip'',
        JObj [(''UnknownAgent'', JObj [(''gemini-2.5-flash'', counter 2 6)]),
              (''CodeGenerator'', JObj [(''gemini-2.5-flash'', counter 1 1)]),
              (''TestGenerator'', JObj [(''gemini-2.5-flash'', counter 1 3)])]) \<and>
   calls_of (counter 2 6) \<noteq> 1"
proof -
  have "calls_of (counter 2 6) \<noteq> 1" by (simp add: calls_of_def counter_def)
  moreover have "fst (run_pipeline_async (deployed canned_config fixed_zip)
          ''Track steps walked per day'' ([], \<lparr>held = Missing, writable = True\<rparr>))
   = Inr (''generated_app.zip'',
        JObj [(''UnknownAgent'', JObj [(''gemini-2.5-flash'', counter 2 6)]),
              (''CodeGenerator'', JObj [(''gemini-2.5-flash'', counter 1 1)]),
              (''TestGenerator'', JObj [(''gemini-2.5-flash'', counter 1 3)])])" by code_simp
  ultimately show ?thesis by (intro conjI)
qed

end
